theory Spec2Isabelle
  imports Complex_Main
begin

section \<open>Values and exceptions\<close>

text \<open>
  The agent of \<^verbatim>\<open>src/agent/overwatch-agent.py\<close> exchanges JSON documents with the
  server. A Python \<^verbatim>\<open>dict\<close> obtained from \<^verbatim>\<open>resp.json()\<close> is an association list
  read with \<open>map_of\<close>; Python's \<^verbatim>\<open>None\<close> is \<open>JNull\<close>. A \<open>string\<close> stands for a Python
  \<^verbatim>\<open>str\<close>, one list element per character, so \<^verbatim>\<open>s[:n]\<close> is \<open>take n s\<close>.
\<close>

datatype json =
    JNull
  | JBool bool
  | JNum int
  | JStr string
  | JArr "json list"
  | JObj "(string \<times> json) list"

type_synonym pydict = "(string \<times> json) list"

text \<open>
  Exceptions: \<^verbatim>\<open>subprocess.TimeoutExpired\<close> has a handler of its own in the script
  runner; every other exception is only ever caught as \<^verbatim>\<open>Exception\<close> and carries its
  \<^verbatim>\<open>str(e)\<close>.
\<close>

datatype exn = TimeoutExpired | Exception string

datatype 'a outcome = Returns 'a | Raises exn

fun bind :: "'a outcome \<times> 's \<Rightarrow> ('a \<Rightarrow> 's \<Rightarrow> 'b outcome \<times> 's) \<Rightarrow> 'b outcome \<times> 's" where
  "bind (Returns x, s) f = f x s"
| "bind (Raises e, s) f = (Raises e, s)"

text \<open>\<^verbatim>\<open>str(KeyError(k))\<close> is the \<^verbatim>\<open>repr\<close> of the key.\<close>

definition KeyError :: "string \<Rightarrow> exn" where
  "KeyError k = Exception (CHR 0x27 # k @ [CHR 0x27])"

text \<open>
  \<^verbatim>\<open>TypeError\<close> and \<^verbatim>\<open>AttributeError\<close> arise when a JSON value of the wrong shape is
  subscripted, iterated or asked for \<^verbatim>\<open>.get\<close>. Their text only reaches the debug log.
\<close>

definition TypeError :: exn where
  "TypeError = Exception ''TypeError''"

definition AttributeError :: exn where
  "AttributeError = Exception ''AttributeError''"

text \<open>\<^verbatim>\<open>d[k]\<close> with a string key.\<close>

fun subscript :: "json \<Rightarrow> string \<Rightarrow> json outcome" where
  "subscript (JObj d) k = (case map_of d k of Some v \<Rightarrow> Returns v | None \<Rightarrow> Raises (KeyError k))"
| "subscript _ k = Raises TypeError"

text \<open>\<^verbatim>\<open>d.get(k, default)\<close>; \<^verbatim>\<open>d.get(k)\<close> is \<open>py_get d k JNull\<close>.\<close>

fun py_get :: "json \<Rightarrow> string \<Rightarrow> json \<Rightarrow> json outcome" where
  "py_get (JObj d) k dflt = (case map_of d k of Some v \<Rightarrow> Returns v | None \<Rightarrow> Returns dflt)"
| "py_get _ k dflt = Raises AttributeError"

text \<open>\<^verbatim>\<open>for x in v\<close>: a list yields its items, a dict its keys, a string its characters.\<close>

fun iterate :: "json \<Rightarrow> json list outcome" where
  "iterate (JArr xs) = Returns xs"
| "iterate (JObj d) = Returns (map (\<lambda>kv. JStr (fst kv)) d)"
| "iterate (JStr s) = Returns (map (\<lambda>c. JStr [c]) s)"
| "iterate _ = Raises TypeError"

text \<open>\<^verbatim>\<open>int(x)\<close> on a float truncates towards zero.\<close>

definition py_int :: "real \<Rightarrow> int" where
  "py_int x = (if 0 \<le> x then \<lfloor>x\<rfloor> else \<lceil>x\<rceil>)"

section \<open>The world around the agent\<close>

datatype endpoint = RegisterEP | HeartbeatEP | MetricsEP | ScriptsEP | ResultEP json

datatype request = POST endpoint pydict | GET endpoint

text \<open>A response: its status code and its body (\<open>None\<close> when the body is not JSON).\<close>

datatype response = Response (status_code: int) (body: "json option")

datatype reply = Replies response | Fails string

text \<open>
  What a child process does when left alone: it exits after some seconds with a return
  code and its two output texts, it never exits, or it cannot be run at all (missing
  interpreter, undecodable output, ...).
\<close>

datatype process = Exits real int string string | Hangs | Unrunnable string

datatype completed = CompletedProcess (returncode: int) (stdout: string) (stderr: string)

text \<open>Everything the agent does to the outside, stamped with the clock reading.\<close>

datatype event =
    Request real request
  | Spawn real "json list" real
  | Kill real
  | Sample real
  | Sleep real real

text \<open>
  The agent object together with the environment it runs in. The environment is
  deterministic but arbitrary: the \<open>n\<close>-th HTTP exchange, child process and metrics
  sample are answered by the three oracle fields, which also say how long the call
  blocks. \<open>signal_at\<close> is the time at which SIGTERM or SIGINT arrives, if ever.
\<close>

record agent =
  token :: string
  hostname :: string
  on_linux :: bool
  sys_executable :: string
  boot_time :: real
  agent_id :: json
  clock :: real
  trace :: "event list"
  requests_made :: nat
  server :: "nat \<Rightarrow> real \<Rightarrow> request \<Rightarrow> real \<times> reply"
  processes_run :: nat
  processes :: "nat \<Rightarrow> json list \<Rightarrow> process"
  samples_taken :: nat
  metrics_source :: "nat \<Rightarrow> real \<Rightarrow> real \<times> pydict outcome"
  signal_at :: "real option"

definition VERSION :: string where
  "VERSION = ''1.0.0''"

definition HEARTBEAT_INTERVAL :: real where
  "HEARTBEAT_INTERVAL = 30"

definition METRICS_INTERVAL :: real where
  "METRICS_INTERVAL = 30"

definition SCRIPT_POLL_INTERVAL :: real where
  "SCRIPT_POLL_INTERVAL = 10"

text \<open>The global \<^verbatim>\<open>running\<close>, cleared by the signal handler.\<close>

definition running :: "agent \<Rightarrow> bool" where
  "running a = (case signal_at a of None \<Rightarrow> True | Some t \<Rightarrow> clock a < t)"

definition time_sleep :: "real \<Rightarrow> agent \<Rightarrow> agent" where
  "time_sleep d a = a\<lparr>clock := clock a + d, trace := trace a @ [Sleep (clock a) d]\<rparr>"

text \<open>\<^verbatim>\<open>self.session.post\<close> and \<^verbatim>\<open>self.session.get\<close>.\<close>

definition session_request :: "request \<Rightarrow> agent \<Rightarrow> response outcome \<times> agent" where
  "session_request rq a =
     (let (latency, rep) = server a (requests_made a) (clock a) rq;
          a' = a\<lparr>clock := clock a + latency,
                 trace := trace a @ [Request (clock a) rq],
                 requests_made := Suc (requests_made a)\<rparr>
      in case rep of
           Replies r \<Rightarrow> (Returns r, a')
         | Fails msg \<Rightarrow> (Raises (Exception msg), a'))"

text \<open>\<^verbatim>\<open>resp.json()\<close>.\<close>

definition resp_json :: "response \<Rightarrow> json outcome" where
  "resp_json r = (case body r of Some j \<Rightarrow> Returns j | None \<Rightarrow> Raises (Exception ''JSONDecodeError''))"

text \<open>
  \<^verbatim>\<open>subprocess.run(argv, capture_output=True, text=True, timeout=t)\<close>: a child that has
  not exited after \<open>t\<close> seconds is killed and \<^verbatim>\<open>TimeoutExpired\<close> is raised.
\<close>

definition timed_out :: "real \<Rightarrow> agent \<Rightarrow> completed outcome \<times> agent" where
  "timed_out t a =
     (Raises TimeoutExpired,
      a\<lparr>clock := clock a + t, trace := trace a @ [Kill (clock a + t)]\<rparr>)"

definition subprocess_run :: "json list \<Rightarrow> real \<Rightarrow> agent \<Rightarrow> completed outcome \<times> agent" where
  "subprocess_run argv t a =
     (let a' = a\<lparr>trace := trace a @ [Spawn (clock a) argv t],
                 processes_run := Suc (processes_run a)\<rparr>
      in case processes a (processes_run a) argv of
           Unrunnable msg \<Rightarrow> (Raises (Exception msg), a')
         | Hangs \<Rightarrow> timed_out t a'
         | Exits d rc out err \<Rightarrow>
             if d \<le> t then (Returns (CompletedProcess rc out err), a'\<lparr>clock := clock a' + d\<rparr>)
             else timed_out t a')"

text \<open>
  The psutil sampling at the head of \<^verbatim>\<open>collect_and_push_metrics\<close>, up to the finished
  \<^verbatim>\<open>metrics\<close> dict: a black box that blocks for a while and yields the dict or raises.
\<close>

definition collect_metrics :: "agent \<Rightarrow> pydict outcome \<times> agent" where
  "collect_metrics a =
     (let (latency, r) = metrics_source a (samples_taken a) (clock a)
      in (r, a\<lparr>clock := clock a + latency,
               trace := trace a @ [Sample (clock a)],
               samples_taken := Suc (samples_taken a)\<rparr>))"

section \<open>The session client\<close>

definition register_request :: "agent \<Rightarrow> request" where
  "register_request a =
     POST RegisterEP
       [(''token'', JStr (token a)),
        (''hostname'', JStr (hostname a)),
        (''os_type'', JStr (if on_linux a then ''linux'' else ''windows'')),
        (''agent_version'', JStr VERSION)]"

definition register_body :: "agent \<Rightarrow> bool outcome \<times> agent" where
  "register_body a =
     bind (session_request (register_request a) a)
       (\<lambda>resp a1.
          if status_code resp = 200 then
            bind (resp_json resp, a1) (\<lambda>data a2.
            bind (py_get data ''agent_id'' JNull, a2) (\<lambda>aid a3.
              (Returns True, a3\<lparr>agent_id := aid\<rparr>)))
          else (Returns False, a1))"

definition register :: "agent \<Rightarrow> bool outcome \<times> agent" where
  "register a =
     (case register_body a of
        (Returns b, a') \<Rightarrow> (Returns b, a')
      | (Raises e, a') \<Rightarrow> (Returns False, a'))"

definition heartbeat_body :: "agent \<Rightarrow> unit outcome \<times> agent" where
  "heartbeat_body a =
     bind (session_request (POST HeartbeatEP
             [(''agent_version'', JStr VERSION),
              (''uptime_seconds'', JNum (py_int (clock a - boot_time a)))]) a)
       (\<lambda>resp a1. (Returns (), a1))"

definition heartbeat :: "agent \<Rightarrow> unit outcome \<times> agent" where
  "heartbeat a =
     (case heartbeat_body a of
        (Returns u, a') \<Rightarrow> (Returns (), a')
      | (Raises e, a') \<Rightarrow> (Returns (), a'))"

definition collect_and_push_metrics_body :: "agent \<Rightarrow> unit outcome \<times> agent" where
  "collect_and_push_metrics_body a =
     bind (collect_metrics a) (\<lambda>metrics a1.
     bind (session_request (POST MetricsEP metrics) a1) (\<lambda>resp a2.
       (Returns (), a2)))"

definition collect_and_push_metrics :: "agent \<Rightarrow> unit outcome \<times> agent" where
  "collect_and_push_metrics a =
     (case collect_and_push_metrics_body a of
        (Returns u, a') \<Rightarrow> (Returns (), a')
      | (Raises e, a') \<Rightarrow> (Returns (), a'))"

section \<open>The script runner\<close>

text \<open>The \<^verbatim>\<open>if\<close>/\<^verbatim>\<open>elif\<close> chain choosing the command line.\<close>

definition interpreter_argv :: "string \<Rightarrow> json \<Rightarrow> json \<Rightarrow> json list" where
  "interpreter_argv py script_type content =
     (if script_type = JStr ''bash'' \<or> script_type = JStr ''shell'' then
        [JStr ''bash'', JStr ''-c'', content]
      else if script_type = JStr ''powershell'' then
        [JStr ''powershell'', JStr ''-Command'', content]
      else if script_type = JStr ''python'' then
        [JStr py, JStr ''-c'', content]
      else
        [JStr ''bash'', JStr ''-c'', content])"

definition completed_payload :: "completed \<Rightarrow> pydict" where
  "completed_payload result =
     [(''exit_code'', JNum (returncode result)),
      (''stdout'', JStr (take 50000 (stdout result))),
      (''stderr'', if stderr result \<noteq> [] then JStr (take 10000 (stderr result)) else JNull)]"

definition timeout_payload :: pydict where
  "timeout_payload =
     [(''exit_code'', JNum (- 1)), (''stdout'', JStr ''''), (''stderr'', JStr ''Execution timed out'')]"

definition failure_payload :: "string \<Rightarrow> pydict" where
  "failure_payload msg =
     [(''exit_code'', JNum (- 1)), (''stdout'', JStr ''''), (''stderr'', JStr msg)]"

definition report :: "json \<Rightarrow> pydict \<Rightarrow> agent \<Rightarrow> unit outcome \<times> agent" where
  "report execution_id payload a =
     bind (session_request (POST (ResultEP execution_id) payload) a)
       (\<lambda>resp a1. (Returns (), a1))"

text \<open>The \<^verbatim>\<open>try\<close> block of \<^verbatim>\<open>_execute_script\<close>.\<close>

definition run_and_report :: "json \<Rightarrow> json \<Rightarrow> json \<Rightarrow> agent \<Rightarrow> unit outcome \<times> agent" where
  "run_and_report execution_id content script_type a =
     bind (subprocess_run (interpreter_argv (sys_executable a) script_type content) 300 a)
       (\<lambda>result a1. report execution_id (completed_payload result) a1)"

text \<open>The \<^verbatim>\<open>try\<close> block with its two handlers.\<close>

definition guarded_run :: "json \<Rightarrow> json \<Rightarrow> json \<Rightarrow> agent \<Rightarrow> unit outcome \<times> agent" where
  "guarded_run execution_id content script_type a =
     (case run_and_report execution_id content script_type a of
        (Returns u, a') \<Rightarrow> (Returns (), a')
      | (Raises TimeoutExpired, a') \<Rightarrow> report execution_id timeout_payload a'
      | (Raises (Exception msg), a') \<Rightarrow> report execution_id (failure_payload msg) a')"

definition execute_script :: "json \<Rightarrow> agent \<Rightarrow> unit outcome \<times> agent" where
  "execute_script script a =
     bind (subscript script ''execution_id'', a) (\<lambda>execution_id a.
     bind (subscript script ''content'', a) (\<lambda>content a.
     bind (py_get script ''script_type'' (JStr ''bash''), a) (\<lambda>script_type a.
     bind (subscript script ''script_name'', a) (\<lambda>script_name a.
       guarded_run execution_id content script_type a))))"

text \<open>The \<^verbatim>\<open>for\<close> loop of \<^verbatim>\<open>poll_and_execute_scripts\<close>.\<close>

fun execute_all :: "json list \<Rightarrow> agent \<Rightarrow> unit outcome \<times> agent" where
  "execute_all [] a = (Returns (), a)"
| "execute_all (script # scripts) a =
     bind (execute_script script a) (\<lambda>u a'. execute_all scripts a')"

definition poll_body :: "agent \<Rightarrow> unit outcome \<times> agent" where
  "poll_body a =
     bind (session_request (GET ScriptsEP) a) (\<lambda>resp a1.
       if status_code resp \<noteq> 200 then (Returns (), a1)
       else
         bind (resp_json resp, a1) (\<lambda>scripts a2.
         bind (iterate scripts, a2) (\<lambda>items a3.
           execute_all items a3)))"

definition poll_and_execute_scripts :: "agent \<Rightarrow> unit outcome \<times> agent" where
  "poll_and_execute_scripts a =
     (case poll_body a of
        (Returns u, a') \<Rightarrow> (Returns (), a')
      | (Raises e, a') \<Rightarrow> (Returns (), a'))"

section \<open>The run loop\<close>

text \<open>The three local variables of \<^verbatim>\<open>run\<close>.\<close>

record schedule =
  last_heartbeat :: real
  last_metrics :: real
  last_script_poll :: real

definition initial_schedule :: schedule where
  "initial_schedule = \<lparr>last_heartbeat = 0, last_metrics = 0, last_script_poll = 0\<rparr>"

definition heartbeat_duty :: "real \<Rightarrow> agent \<times> schedule \<Rightarrow> unit outcome \<times> agent \<times> schedule" where
  "heartbeat_duty now st =
     (case st of (a, sch) \<Rightarrow>
        if now - last_heartbeat sch \<ge> HEARTBEAT_INTERVAL then
          (case heartbeat a of
             (Returns u, a') \<Rightarrow> (Returns (), a', sch\<lparr>last_heartbeat := now\<rparr>)
           | (Raises e, a') \<Rightarrow> (Raises e, a', sch))
        else (Returns (), a, sch))"

definition metrics_duty :: "real \<Rightarrow> agent \<times> schedule \<Rightarrow> unit outcome \<times> agent \<times> schedule" where
  "metrics_duty now st =
     (case st of (a, sch) \<Rightarrow>
        if now - last_metrics sch \<ge> METRICS_INTERVAL then
          (case collect_and_push_metrics a of
             (Returns u, a') \<Rightarrow> (Returns (), a', sch\<lparr>last_metrics := now\<rparr>)
           | (Raises e, a') \<Rightarrow> (Raises e, a', sch))
        else (Returns (), a, sch))"

definition script_poll_duty :: "real \<Rightarrow> agent \<times> schedule \<Rightarrow> unit outcome \<times> agent \<times> schedule" where
  "script_poll_duty now st =
     (case st of (a, sch) \<Rightarrow>
        if now - last_script_poll sch \<ge> SCRIPT_POLL_INTERVAL then
          (case poll_and_execute_scripts a of
             (Returns u, a') \<Rightarrow> (Returns (), a', sch\<lparr>last_script_poll := now\<rparr>)
           | (Raises e, a') \<Rightarrow> (Raises e, a', sch))
        else (Returns (), a, sch))"

text \<open>One iteration of the \<^verbatim>\<open>while\<close> body.\<close>

definition tick :: "agent \<times> schedule \<Rightarrow> unit outcome \<times> agent \<times> schedule" where
  "tick st =
     (let now = clock (fst st) in
      bind (heartbeat_duty now st) (\<lambda>u st1.
      bind (metrics_duty now st1) (\<lambda>u st2.
      bind (script_poll_duty now st2) (\<lambda>u st3.
        (Returns (), time_sleep 1 (fst st3), snd st3)))))"

text \<open>
  How the process ends: \<^verbatim>\<open>sys.exit(n)\<close>, an uncaught exception, or \<^verbatim>\<open>main\<close> returning.
\<close>

datatype ending = SysExit int | Uncaught exn | Finished

fun exit_code :: "ending \<Rightarrow> int" where
  "exit_code (SysExit n) = n"
| "exit_code (Uncaught e) = 1"
| "exit_code Finished = 0"

text \<open>
  The \<^verbatim>\<open>while running\<close> loop runs for as long as no signal arrives, so it is given
  fuel: an ending of \<open>None\<close> means that the loop is still going when the fuel is spent.
\<close>

fun run_loop :: "nat \<Rightarrow> agent \<times> schedule \<Rightarrow> ending option \<times> agent \<times> schedule" where
  "run_loop 0 st = (None, st)"
| "run_loop (Suc n) st =
     (if running (fst st) then
        (case tick st of
           (Returns u, st') \<Rightarrow> run_loop n st'
         | (Raises e, st') \<Rightarrow> (Some (Uncaught e), st'))
      else (Some Finished, st))"

text \<open>\<^verbatim>\<open>run\<close>, the whole of the process after argument parsing.\<close>

definition run :: "nat \<Rightarrow> agent \<Rightarrow> ending option \<times> agent \<times> schedule" where
  "run fuel a =
     (case register a of
        (Raises e, a1) \<Rightarrow> (Some (Uncaught e), a1, initial_schedule)
      | (Returns True, a1) \<Rightarrow> run_loop fuel (a1, initial_schedule)
      | (Returns False, a1) \<Rightarrow>
          (case register (time_sleep 30 a1) of
             (Raises e, a2) \<Rightarrow> (Some (Uncaught e), a2, initial_schedule)
           | (Returns True, a2) \<Rightarrow> run_loop fuel (a2, initial_schedule)
           | (Returns False, a2) \<Rightarrow> (Some (SysExit 1), a2, initial_schedule)))"

section \<open>Reading the trace\<close>

text \<open>The result reports handed to the session: execution id and payload.\<close>

fun report_of :: "event \<Rightarrow> (json \<times> pydict) list" where
  "report_of (Request t (POST (ResultEP i) p)) = [(i, p)]"
| "report_of e = []"

definition reports :: "event list \<Rightarrow> (json \<times> pydict) list" where
  "reports tr = concat (map report_of tr)"

fun is_spawn_of :: "json list \<Rightarrow> event \<Rightarrow> bool" where
  "is_spawn_of argv (Spawn t av tm) = (av = argv \<and> tm = 300)"
| "is_spawn_of argv e = False"

fun is_report_for :: "json \<Rightarrow> event \<Rightarrow> bool" where
  "is_report_for i (Request t (POST (ResultEP j) p)) = (j = i)"
| "is_report_for i e = False"

fun is_kill :: "event \<Rightarrow> bool" where
  "is_kill (Kill t) = True"
| "is_kill e = False"

datatype duty = HeartbeatDuty | MetricsDuty | ScriptPollDuty

fun duty_of :: "event \<Rightarrow> duty list" where
  "duty_of (Request t (POST HeartbeatEP p)) = [HeartbeatDuty]"
| "duty_of (Sample t) = [MetricsDuty]"
| "duty_of (Request t (GET ScriptsEP)) = [ScriptPollDuty]"
| "duty_of e = []"

definition duties_started :: "event list \<Rightarrow> duty list" where
  "duties_started tr = concat (map duty_of tr)"

definition reported :: "json \<Rightarrow> event list \<Rightarrow> bool" where
  "reported i evs = (evs \<noteq> [] \<and> list_all (\<lambda>e. is_kill e \<or> is_report_for i e) evs \<and>
                     is_report_for i (last evs))"

definition task_events :: "string \<Rightarrow> json \<Rightarrow> event list \<Rightarrow> bool" where
  "task_events py script evs =
     (case (subscript script ''execution_id'', subscript script ''content'',
            py_get script ''script_type'' (JStr ''bash'')) of
        (Returns i, Returns c, Returns t) \<Rightarrow>
          (case evs of
             [] \<Rightarrow> False
           | e # rest \<Rightarrow> is_spawn_of (interpreter_argv py t c) e \<and> reported i rest)
      | _ \<Rightarrow> False)"

text \<open>
  A child has not exited when the timeout of \<open>t\<close> seconds is over.
\<close>

fun overruns :: "real \<Rightarrow> process \<Rightarrow> bool" where
  "overruns t (Exits d rc out err) = (t < d)"
| "overruns t Hangs = True"
| "overruns t (Unrunnable msg) = False"




section \<open>The reference run and other concrete environments\<close>

text \<open>
  The scenario of section 8 of the specification, for a clock that reads \<open>t0\<close> when the
  process starts: every HTTP call succeeds at once, the poll made 10 seconds after the
  start returns one task, whose script exits after 1 second with code 0 and standard
  output \<^verbatim>\<open>ok\<close>, sampling the metrics takes the one second for which
  \<^verbatim>\<open>psutil.cpu_percent(interval=1)\<close> blocks, and the signal arrives after 35 seconds.
\<close>

definition reference_task :: json where
  "reference_task =
     JObj [(''execution_id'', JStr ''e1''), (''script_name'', JStr ''probe''),
           (''content'', JStr ''echo ok''), (''script_type'', JStr ''bash'')]"

fun reference_server :: "real \<Rightarrow> nat \<Rightarrow> real \<Rightarrow> request \<Rightarrow> real \<times> reply" where
  "reference_server t0 n t (POST RegisterEP p) =
     (0, Replies (Response 200 (Some (JObj [(''agent_id'', JStr ''agent-1''),
                                             (''server_name'', JStr ''overwatch'')]))))"
| "reference_server t0 n t (GET ScriptsEP) =
     (0, Replies (Response 200 (Some (JArr (if t = t0 + 10 then [reference_task] else [])))))"
| "reference_server t0 n t rq = (0, Replies (Response 200 None))"

definition reference_agent :: "real \<Rightarrow> agent" where
  "reference_agent t0 =
     \<lparr>token = ''secret'', hostname = ''host'', on_linux = True,
      sys_executable = ''/usr/bin/python3'', boot_time = t0, agent_id = JNull,
      clock = t0, trace = [], requests_made = 0, server = reference_server t0,
      processes_run = 0, processes = (\<lambda>n argv. Exits 1 0 ''ok'' []),
      samples_taken = 0, metrics_source = (\<lambda>n t. (1, Returns [])),
      signal_at = Some (t0 + 35)\<rparr>"


text \<open>A script that sleeps for 400 seconds before writing anything.\<close>

definition slow_script_agent :: agent where
  "slow_script_agent =
     (reference_agent 1000)\<lparr>processes := (\<lambda>n argv. Exits 400 0 ''late output'' ''late error'')\<rparr>"

text \<open>A transport that breaks on the first request of the session and works afterwards.\<close>

definition flaky_server :: "nat \<Rightarrow> real \<Rightarrow> request \<Rightarrow> real \<times> reply" where
  "flaky_server n t rq =
     (if n = 0 then (0, Fails ''Connection aborted'') else (0, Replies (Response 200 None)))"

definition flaky_agent :: agent where
  "flaky_agent = (reference_agent 1000)\<lparr>server := flaky_server\<rparr>"

text \<open>
  The same broken first request, for a task with a long execution id: the text of the
  transport error quotes the URL of the request, and with it the execution id.
\<close>

definition long_id :: string where
  "long_id = replicate 11000 (CHR ''x'')"

definition long_id_task :: json where
  "long_id_task =
     JObj [(''execution_id'', JStr long_id), (''script_name'', JStr ''probe''),
           (''content'', JStr ''echo ok''), (''script_type'', JStr ''bash'')]"

definition quoting_server :: "nat \<Rightarrow> real \<Rightarrow> request \<Rightarrow> real \<times> reply" where
  "quoting_server n t rq =
     (if n = 0 then
        (0, Fails (''Max retries exceeded with url: /api/v1/agent/scripts/'' @ long_id @ ''/result''))
      else (0, Replies (Response 200 None)))"

definition quoting_agent :: agent where
  "quoting_agent = (reference_agent 1000)\<lparr>server := quoting_server\<rparr>"

text \<open>
  A poll that returns two tasks while every result report fails in the transport and
  the scripts never exit.
\<close>

definition first_task :: json where
  "first_task =
     JObj [(''execution_id'', JStr ''e1''), (''script_name'', JStr ''first''),
           (''content'', JStr ''sleep 1000''), (''script_type'', JStr ''bash'')]"

definition second_task :: json where
  "second_task =
     JObj [(''execution_id'', JStr ''e2''), (''script_name'', JStr ''second''),
           (''content'', JStr ''echo two''), (''script_type'', JStr ''bash'')]"

fun two_task_server :: "bool \<Rightarrow> nat \<Rightarrow> real \<Rightarrow> request \<Rightarrow> real \<times> reply" where
  "two_task_server up n t (GET ScriptsEP) =
     (0, Replies (Response 200 (Some (JArr [first_task, second_task]))))"
| "two_task_server up n t (POST (ResultEP i) p) =
     (if up then (0, Replies (Response 200 None)) else (0, Fails ''Connection reset''))"
| "two_task_server up n t rq = (0, Replies (Response 200 None))"

definition two_task_agent :: "bool \<Rightarrow> agent" where
  "two_task_agent up =
     (reference_agent 1000)\<lparr>server := two_task_server up, processes := (\<lambda>n argv. Hangs)\<rparr>"

text \<open>A server that answers every request with status 200 and the empty JSON object.\<close>

definition anonymous_agent :: agent where
  "anonymous_agent =
     (reference_agent 1000)\<lparr>server := (\<lambda>n t rq. (0, Replies (Response 200 (Some (JObj [])))))\<rparr>"

text \<open>A transport that fails for every metrics push and works for everything else.\<close>

fun metrics_down_server :: "nat \<Rightarrow> real \<Rightarrow> request \<Rightarrow> real \<times> reply" where
  "metrics_down_server n t (POST MetricsEP p) = (0, Fails ''Connection refused'')"
| "metrics_down_server n t (GET ScriptsEP) = (0, Replies (Response 200 (Some (JArr []))))"
| "metrics_down_server n t rq = (0, Replies (Response 200 None))"

definition metrics_down_agent :: "real \<Rightarrow> agent" where
  "metrics_down_agent t = (reference_agent t)\<lparr>server := metrics_down_server\<rparr>"

text \<open>
  A server that rejects the first \<open>k\<close> requests with status 503 and then behaves as in
  the reference run.
\<close>

definition rejecting_server :: "nat \<Rightarrow> nat \<Rightarrow> real \<Rightarrow> request \<Rightarrow> real \<times> reply" where
  "rejecting_server k n t rq =
     (if n < k then (0, Replies (Response 503 None)) else reference_server 1000 n t rq)"

definition rejected_agent :: "nat \<Rightarrow> agent" where
  "rejected_agent k = (reference_agent 1000)\<lparr>server := rejecting_server k, signal_at := Some 1000\<rparr>"








section \<open>No duty lets an exception escape\<close>

lemma register_returns: "\<exists>b. fst (register a) = Returns b"
  by (cases "register_body a") (auto simp: register_def split: outcome.splits)

lemma heartbeat_returns: "fst (heartbeat a) = Returns ()"
  by (simp add: heartbeat_def split: prod.splits outcome.splits)

lemma collect_and_push_metrics_returns: "fst (collect_and_push_metrics a) = Returns ()"
  by (simp add: collect_and_push_metrics_def split: prod.splits outcome.splits)

lemma poll_and_execute_scripts_returns: "fst (poll_and_execute_scripts a) = Returns ()"
  by (simp add: poll_and_execute_scripts_def split: prod.splits outcome.splits)

lemma heartbeat_duty_eq:
  "heartbeat_duty now (a, sch) =
     (if HEARTBEAT_INTERVAL \<le> now - last_heartbeat sch
      then (Returns (), snd (heartbeat a), sch\<lparr>last_heartbeat := now\<rparr>)
      else (Returns (), a, sch))"
  using heartbeat_returns [of a]
  by (cases "heartbeat a") (simp add: heartbeat_duty_def)

lemma metrics_duty_eq:
  "metrics_duty now (a, sch) =
     (if METRICS_INTERVAL \<le> now - last_metrics sch
      then (Returns (), snd (collect_and_push_metrics a), sch\<lparr>last_metrics := now\<rparr>)
      else (Returns (), a, sch))"
  using collect_and_push_metrics_returns [of a]
  by (cases "collect_and_push_metrics a") (simp add: metrics_duty_def)

lemma script_poll_duty_eq:
  "script_poll_duty now (a, sch) =
     (if SCRIPT_POLL_INTERVAL \<le> now - last_script_poll sch
      then (Returns (), snd (poll_and_execute_scripts a), sch\<lparr>last_script_poll := now\<rparr>)
      else (Returns (), a, sch))"
  using poll_and_execute_scripts_returns [of a]
  by (cases "poll_and_execute_scripts a") (simp add: script_poll_duty_def)

lemma tick_eq:
  "tick (a, sch) =
     (let now = clock a;
          a1 = (if HEARTBEAT_INTERVAL \<le> now - last_heartbeat sch then snd (heartbeat a) else a);
          a2 = (if METRICS_INTERVAL \<le> now - last_metrics sch then snd (collect_and_push_metrics a1) else a1);
          a3 = (if SCRIPT_POLL_INTERVAL \<le> now - last_script_poll sch then snd (poll_and_execute_scripts a2) else a2)
      in (Returns (), time_sleep 1 a3,
          \<lparr>last_heartbeat = (if HEARTBEAT_INTERVAL \<le> now - last_heartbeat sch then now else last_heartbeat sch),
           last_metrics = (if METRICS_INTERVAL \<le> now - last_metrics sch then now else last_metrics sch),
           last_script_poll = (if SCRIPT_POLL_INTERVAL \<le> now - last_script_poll sch then now else last_script_poll sch)\<rparr>))"
  by (simp add: tick_def Let_def heartbeat_duty_eq metrics_duty_eq script_poll_duty_eq)

lemma outcome_state_cases:
  obtains (Returns) x s where "p = (Returns x, s)" | (Raises) e s where "p = (Raises e, s)"
proof (cases p)
  case (Pair r s)
  then show ?thesis using that by (cases r) auto
qed

lemma session_request_trace:
  "trace (snd (session_request rq a)) = trace a @ [Request (clock a) rq]"
  by (simp add: session_request_def Let_def split: prod.splits reply.splits)

lemma session_request_sys_executable:
  "sys_executable (snd (session_request rq a)) = sys_executable a"
  by (simp add: session_request_def Let_def split: prod.splits reply.splits)

lemma report_trace:
  "trace (snd (report i p a)) = trace a @ [Request (clock a) (POST (ResultEP i) p)]"
  using session_request_trace [of "POST (ResultEP i) p" a]
  by (cases "session_request (POST (ResultEP i) p) a" rule: outcome_state_cases) (simp_all add: report_def)

lemma report_sys_executable:
  "sys_executable (snd (report i p a)) = sys_executable a"
  using session_request_sys_executable [of "POST (ResultEP i) p" a]
  by (cases "session_request (POST (ResultEP i) p) a" rule: outcome_state_cases) (simp_all add: report_def)

lemma subprocess_run_cases:
  "(\<exists>r a'. subprocess_run argv t a = (Returns r, a') \<and> trace a' = trace a @ [Spawn (clock a) argv t]
        \<and> sys_executable a' = sys_executable a) \<or>
   (\<exists>a'. subprocess_run argv t a = (Raises TimeoutExpired, a')
        \<and> trace a' = trace a @ [Spawn (clock a) argv t, Kill (clock a + t)]
        \<and> sys_executable a' = sys_executable a) \<or>
   (\<exists>msg a'. subprocess_run argv t a = (Raises (Exception msg), a')
        \<and> trace a' = trace a @ [Spawn (clock a) argv t]
        \<and> sys_executable a' = sys_executable a)"
  by (simp add: subprocess_run_def timed_out_def Let_def split: process.splits)

lemma report_cases:
  obtains (Returns) a' where "report i p a = (Returns (), a')"
      "trace a' = trace a @ [Request (clock a) (POST (ResultEP i) p)]"
      "sys_executable a' = sys_executable a"
  | (Raises) msg a' where "report i p a = (Raises (Exception msg), a')"
      "trace a' = trace a @ [Request (clock a) (POST (ResultEP i) p)]"
      "sys_executable a' = sys_executable a"
proof (cases "server a (requests_made a) (clock a) (POST (ResultEP i) p)")
  case (Pair latency rep)
  show ?thesis
  proof (cases rep)
    case (Replies r)
    with Pair show ?thesis
      by (intro Returns [of "snd (report i p a)"]) (simp_all add: report_def session_request_def)
  next
    case (Fails msg)
    with Pair show ?thesis
      by (intro Raises [of msg "snd (report i p a)"]) (simp_all add: report_def session_request_def)
  qed
qed

lemma guarded_run_shape:
  "\<exists>evs. trace (snd (guarded_run i c t a)) =
            trace a @ Spawn (clock a) (interpreter_argv (sys_executable a) t c) 300 # evs
         \<and> reported i evs"
  "sys_executable (snd (guarded_run i c t a)) = sys_executable a"
proof -
  let ?argv = "interpreter_argv (sys_executable a) t c"
  have "(\<exists>evs. trace (snd (guarded_run i c t a)) = trace a @ Spawn (clock a) ?argv 300 # evs
         \<and> reported i evs) \<and> sys_executable (snd (guarded_run i c t a)) = sys_executable a"
    using subprocess_run_cases [of ?argv 300 a]
  proof (elim disjE exE conjE)
    fix r a1
    assume run: "subprocess_run ?argv 300 a = (Returns r, a1)"
      and tr: "trace a1 = trace a @ [Spawn (clock a) ?argv 300]"
      and py: "sys_executable a1 = sys_executable a"
    show ?thesis
    proof (cases i "completed_payload r" a1 rule: report_cases)
      case (Returns a2)
      with run tr py show ?thesis
        by (simp add: guarded_run_def run_and_report_def reported_def)
    next
      case (Raises msg a2)
      note first = this
      show ?thesis
      proof (cases i "failure_payload msg" a2 rule: report_cases)
        case (Returns a3)
        with first run tr py show ?thesis
          by (simp add: guarded_run_def run_and_report_def reported_def)
      next
        case (Raises msg' a3)
        with first run tr py show ?thesis
          by (simp add: guarded_run_def run_and_report_def reported_def)
      qed
    qed
  next
    fix a1
    assume run: "subprocess_run ?argv 300 a = (Raises TimeoutExpired, a1)"
      and tr: "trace a1 = trace a @ [Spawn (clock a) ?argv 300, Kill (clock a + 300)]"
      and py: "sys_executable a1 = sys_executable a"
    show ?thesis
    proof (cases i timeout_payload a1 rule: report_cases)
      case (Returns a2)
      with run tr py show ?thesis
        by (simp add: guarded_run_def run_and_report_def reported_def)
    next
      case (Raises msg a2)
      with run tr py show ?thesis
        by (simp add: guarded_run_def run_and_report_def reported_def)
    qed
  next
    fix msg a1
    assume run: "subprocess_run ?argv 300 a = (Raises (Exception msg), a1)"
      and tr: "trace a1 = trace a @ [Spawn (clock a) ?argv 300]"
      and py: "sys_executable a1 = sys_executable a"
    show ?thesis
    proof (cases i "failure_payload msg" a1 rule: report_cases)
      case (Returns a2)
      with run tr py show ?thesis
        by (simp add: guarded_run_def run_and_report_def reported_def)
    next
      case (Raises msg' a2)
      with run tr py show ?thesis
        by (simp add: guarded_run_def run_and_report_def reported_def)
    qed
  qed
  then show "\<exists>evs. trace (snd (guarded_run i c t a)) = trace a @ Spawn (clock a) ?argv 300 # evs
         \<and> reported i evs"
    and "sys_executable (snd (guarded_run i c t a)) = sys_executable a"
    by blast+
qed

lemma execute_script_cases:
  "(\<exists>i c t. subscript script ''execution_id'' = Returns i \<and>
        subscript script ''content'' = Returns c \<and>
        py_get script ''script_type'' (JStr ''bash'') = Returns t \<and>
        execute_script script a = guarded_run i c t a)
   \<or> (\<exists>e. execute_script script a = (Raises e, a))"
proof (cases script)
  case (JObj d)
  show ?thesis
    unfolding JObj execute_script_def
    by (cases "map_of d ''execution_id''"; cases "map_of d ''content''";
        cases "map_of d ''script_type''"; cases "map_of d ''script_name''") simp_all
qed (simp_all add: execute_script_def)

lemma reported_no_duty: "reported i evs \<Longrightarrow> duties_started evs = []"
proof -
  have "list_all (\<lambda>e. is_kill e \<or> is_report_for i e) evs \<Longrightarrow> duties_started evs = []"
  proof (induction evs)
    case Nil
    show ?case by (simp add: duties_started_def)
  next
    case (Cons e evs)
    then show ?case
      by (cases e rule: duty_of.cases) (simp_all add: duties_started_def)
  qed
  then show "reported i evs \<Longrightarrow> duties_started evs = []"
    by (simp add: reported_def)
qed

lemma duties_started_append [simp]:
  "duties_started (xs @ ys) = duties_started xs @ duties_started ys"
  by (simp add: duties_started_def)

lemma execute_script_shape:
  "execute_script script a = (Returns u, a') \<Longrightarrow>
     \<exists>evs. trace a' = trace a @ evs \<and> task_events (sys_executable a) script evs"
  "sys_executable (snd (execute_script script a)) = sys_executable a"
  "\<exists>evs. trace (snd (execute_script script a)) = trace a @ evs \<and> duties_started evs = []"
proof -
  show "sys_executable (snd (execute_script script a)) = sys_executable a"
    using execute_script_cases [of script a] guarded_run_shape(2)
    by (elim disjE exE conjE) simp_all
  show "\<exists>evs. trace (snd (execute_script script a)) = trace a @ evs \<and> duties_started evs = []"
    using execute_script_cases [of script a]
  proof (elim disjE exE conjE)
    fix i c t
    assume "execute_script script a = guarded_run i c t a"
    moreover obtain evs where "trace (snd (guarded_run i c t a)) =
        trace a @ Spawn (clock a) (interpreter_argv (sys_executable a) t c) 300 # evs" "reported i evs"
      using guarded_run_shape(1) by blast
    ultimately show ?thesis
      using reported_no_duty [of i evs]
      by (intro exI [of _ "Spawn (clock a) (interpreter_argv (sys_executable a) t c) 300 # evs"])
         (simp add: duties_started_def)
  next
    fix e
    assume "execute_script script a = (Raises e, a)"
    then show ?thesis by (simp add: duties_started_def)
  qed
  assume ret: "execute_script script a = (Returns u, a')"
  show "\<exists>evs. trace a' = trace a @ evs \<and> task_events (sys_executable a) script evs"
    using execute_script_cases [of script a]
  proof (elim disjE exE conjE)
    fix i c t
    assume keys: "subscript script ''execution_id'' = Returns i"
      "subscript script ''content'' = Returns c"
      "py_get script ''script_type'' (JStr ''bash'') = Returns t"
      and eq: "execute_script script a = guarded_run i c t a"
    obtain evs where "trace (snd (guarded_run i c t a)) =
        trace a @ Spawn (clock a) (interpreter_argv (sys_executable a) t c) 300 # evs" "reported i evs"
      using guarded_run_shape(1) by blast
    with ret eq keys show ?thesis
      by (intro exI [of _ "Spawn (clock a) (interpreter_argv (sys_executable a) t c) 300 # evs"])
         (simp add: task_events_def)
  next
    fix e
    assume "execute_script script a = (Raises e, a)"
    with ret show ?thesis by simp
  qed
qed

lemma execute_all_no_duty:
  "\<exists>evs. trace (snd (execute_all scripts a)) = trace a @ evs \<and> duties_started evs = []"
proof (induction scripts arbitrary: a)
  case Nil
  show ?case by (simp add: duties_started_def)
next
  case (Cons script scripts)
  obtain evs where evs: "trace (snd (execute_script script a)) = trace a @ evs" "duties_started evs = []"
    using execute_script_shape(3) by blast
  show ?case
  proof (cases "execute_script script a" rule: outcome_state_cases)
    case (Returns u a1)
    obtain evs' where "trace (snd (execute_all scripts a1)) = trace a1 @ evs'" "duties_started evs' = []"
      using Cons.IH by blast
    with evs Returns show ?thesis
      by (intro exI [of _ "evs @ evs'"]) simp
  next
    case (Raises e a1)
    with evs show ?thesis by simp
  qed
qed

lemma execute_all_in_order:
  "execute_all scripts a = (Returns u, a') \<Longrightarrow>
     \<exists>evss. trace a' = trace a @ concat evss \<and> list_all2 (task_events (sys_executable a)) scripts evss"
proof (induction scripts arbitrary: a)
  case Nil
  then show ?case by simp
next
  case (Cons script scripts)
  show ?case
  proof (cases "execute_script script a" rule: outcome_state_cases)
    case (Raises e a1)
    with Cons.prems show ?thesis by simp
  next
    case (Returns v a1)
    then obtain evs where evs: "trace a1 = trace a @ evs" "task_events (sys_executable a) script evs"
      using execute_script_shape(1) by blast
    have py: "sys_executable a1 = sys_executable a"
      using execute_script_shape(2) [of script a] Returns by simp
    from Cons.prems Returns have "execute_all scripts a1 = (Returns u, a')" by simp
    then obtain evss where "trace a' = trace a1 @ concat evss"
        "list_all2 (task_events (sys_executable a1)) scripts evss"
      using Cons.IH by blast
    with evs py show ?thesis
      by (intro exI [of _ "evs # evss"]) simp
  qed
qed

lemma poll_body_events:
  "\<exists>evs. trace (snd (poll_body a)) = trace a @ Request (clock a) (GET ScriptsEP) # evs
         \<and> duties_started evs = []"
proof (cases "session_request (GET ScriptsEP) a" rule: outcome_state_cases)
  case (Raises e a1)
  then show ?thesis
    using session_request_trace [of "GET ScriptsEP" a] by (simp add: poll_body_def duties_started_def)
next
  case (Returns resp a1)
  then have tr: "trace a1 = trace a @ [Request (clock a) (GET ScriptsEP)]"
    using session_request_trace [of "GET ScriptsEP" a] by simp
  have none: "\<exists>evs. trace a1 = trace a @ Request (clock a) (GET ScriptsEP) # evs \<and> duties_started evs = []"
    using tr by (simp add: duties_started_def)
  show ?thesis
  proof (cases "status_code resp = 200")
    case False
    with Returns none show ?thesis by (simp add: poll_body_def)
  next
    case True
    show ?thesis
    proof (cases "resp_json resp")
      case (Raises e)
      with True Returns none show ?thesis by (simp add: poll_body_def)
    next
      case j: (Returns j)
      show ?thesis
      proof (cases "iterate j")
        case (Raises e)
        with j True Returns none show ?thesis by (simp add: poll_body_def)
      next
        case items: (Returns items)
        obtain evs where "trace (snd (execute_all items a1)) = trace a1 @ evs" "duties_started evs = []"
          using execute_all_no_duty by blast
        with items j True Returns tr show ?thesis by (simp add: poll_body_def)
      qed
    qed
  qed
qed

lemma poll_and_execute_scripts_events:
  "\<exists>evs. trace (snd (poll_and_execute_scripts a)) = trace a @ Request (clock a) (GET ScriptsEP) # evs
         \<and> duties_started evs = []"
  using poll_body_events [of a]
  by (cases "poll_body a" rule: outcome_state_cases) (simp_all add: poll_and_execute_scripts_def)

lemma heartbeat_trace:
  "trace (snd (heartbeat a)) = trace a @ [Request (clock a) (POST HeartbeatEP
       [(''agent_version'', JStr VERSION), (''uptime_seconds'', JNum (py_int (clock a - boot_time a)))])]"
  (is "_ = _ @ [Request _ ?rq]")
  using session_request_trace [of ?rq a]
  by (cases "session_request ?rq a" rule: outcome_state_cases)
     (simp_all add: heartbeat_def heartbeat_body_def)

lemma collect_metrics_trace:
  "trace (snd (collect_metrics a)) = trace a @ [Sample (clock a)]"
  by (simp add: collect_metrics_def split: prod.splits)

lemma collect_and_push_metrics_events:
  "\<exists>evs. trace (snd (collect_and_push_metrics a)) = trace a @ Sample (clock a) # evs
         \<and> duties_started evs = []"
proof (cases "collect_metrics a" rule: outcome_state_cases)
  case (Raises e a1)
  then show ?thesis
    using collect_metrics_trace [of a]
    by (simp add: collect_and_push_metrics_def collect_and_push_metrics_body_def duties_started_def)
next
  case (Returns m a1)
  then show ?thesis
    using collect_metrics_trace [of a] session_request_trace [of "POST MetricsEP m" a1]
    by (cases "session_request (POST MetricsEP m) a1" rule: outcome_state_cases)
       (simp_all add: collect_and_push_metrics_def collect_and_push_metrics_body_def duties_started_def)
qed

section \<open>The script runner: dispatch and timeout\<close>

lemma execute_script_wellformed:
  assumes "map_of d ''execution_id'' = Some i" "map_of d ''content'' = Some c"
    "map_of d ''script_name'' = Some n"
  shows "execute_script (JObj d) a =
           guarded_run i c (case map_of d ''script_type'' of None \<Rightarrow> JStr ''bash'' | Some t \<Rightarrow> t) a"
  using assms by (simp add: execute_script_def split: option.splits)

text \<open>
  Claim C7. The command line is a function of \<^verbatim>\<open>script_type\<close> alone and has no failing
  branch: \<^verbatim>\<open>bash\<close> and \<^verbatim>\<open>shell\<close> give \<^verbatim>\<open>bash -c\<close>, \<^verbatim>\<open>powershell\<close> gives
  \<^verbatim>\<open>powershell -Command\<close>, \<^verbatim>\<open>python\<close> gives the running Python interpreter with
  \<^verbatim>\<open>-c\<close>, and every other value gives \<^verbatim>\<open>bash -c\<close> again. A task that has its
  execution id, content and name always reaches \<^verbatim>\<open>subprocess.run\<close> with the command line
  so chosen, an absent \<^verbatim>\<open>script_type\<close> counting as \<^verbatim>\<open>bash\<close>.
\<close>

theorem interpreter_dispatch_total:
  "interpreter_argv py (JStr ''bash'') c = [JStr ''bash'', JStr ''-c'', c] \<and>
   interpreter_argv py (JStr ''shell'') c = [JStr ''bash'', JStr ''-c'', c] \<and>
   interpreter_argv py (JStr ''powershell'') c = [JStr ''powershell'', JStr ''-Command'', c] \<and>
   interpreter_argv py (JStr ''python'') c = [JStr py, JStr ''-c'', c] \<and>
   (\<forall>t. t \<notin> {JStr ''bash'', JStr ''shell'', JStr ''powershell'', JStr ''python''} \<longrightarrow>
        interpreter_argv py t c = [JStr ''bash'', JStr ''-c'', c]) \<and>
   (map_of d ''execution_id'' = Some i \<and> map_of d ''content'' = Some x \<and>
    map_of d ''script_name'' = Some n \<longrightarrow>
      (\<exists>evs. trace (snd (execute_script (JObj d) a)) =
         trace a @ Spawn (clock a)
           (interpreter_argv (sys_executable a)
              (case map_of d ''script_type'' of None \<Rightarrow> JStr ''bash'' | Some t \<Rightarrow> t) x) 300 # evs))"
proof (intro conjI allI impI)
  show "interpreter_argv py (JStr ''bash'') c = [JStr ''bash'', JStr ''-c'', c]"
    by (simp add: interpreter_argv_def)
  show "interpreter_argv py (JStr ''shell'') c = [JStr ''bash'', JStr ''-c'', c]"
    by (simp add: interpreter_argv_def)
  show "interpreter_argv py (JStr ''powershell'') c = [JStr ''powershell'', JStr ''-Command'', c]"
    by (simp add: interpreter_argv_def)
  show "interpreter_argv py (JStr ''python'') c = [JStr py, JStr ''-c'', c]"
    by (simp add: interpreter_argv_def)
  show "interpreter_argv py t c = [JStr ''bash'', JStr ''-c'', c]"
    if "t \<notin> {JStr ''bash'', JStr ''shell'', JStr ''powershell'', JStr ''python''}" for t
    using that by (simp add: interpreter_argv_def)
  let ?t = "case map_of d ''script_type'' of None \<Rightarrow> JStr ''bash'' | Some t \<Rightarrow> t"
  assume "map_of d ''execution_id'' = Some i \<and> map_of d ''content'' = Some x \<and>
    map_of d ''script_name'' = Some n"
  then have keys: "map_of d ''execution_id'' = Some i" "map_of d ''content'' = Some x"
    "map_of d ''script_name'' = Some n"
    by simp_all
  obtain evs where "trace (snd (guarded_run i x ?t a)) =
      trace a @ Spawn (clock a) (interpreter_argv (sys_executable a) ?t x) 300 # evs"
    using guarded_run_shape(1) [of i x ?t a] by blast
  then have "trace (snd (execute_script (JObj d) a)) =
      trace a @ Spawn (clock a) (interpreter_argv (sys_executable a) ?t x) 300 # evs"
    by (simp only: execute_script_wellformed [OF keys])
  then show "\<exists>evs. trace (snd (execute_script (JObj d) a)) =
         trace a @ Spawn (clock a) (interpreter_argv (sys_executable a) ?t x) 300 # evs"
    by (rule exI)
qed

theorem interpreter_dispatch_total_witness:
  "interpreter_argv ''/usr/bin/python3'' (JStr ''ruby'') (JStr ''echo ok'') =
     [JStr ''bash'', JStr ''-c'', JStr ''echo ok''] \<and>
   interpreter_argv ''/usr/bin/python3'' JNull (JStr ''echo ok'') =
     [JStr ''bash'', JStr ''-c'', JStr ''echo ok''] \<and>
   (\<exists>evs. trace (snd (execute_script
        (JObj [(''execution_id'', JStr ''e7''), (''script_name'', JStr ''probe''),
               (''content'', JStr ''echo ok'')]) (reference_agent 1000))) =
      Spawn 1000 [JStr ''bash'', JStr ''-c'', JStr ''echo ok''] 300 # evs)"
proof -
  let ?d = "[(''execution_id'', JStr ''e7''), (''script_name'', JStr ''probe''),
        (''content'', JStr ''echo ok'')]"
  note dispatch = interpreter_dispatch_total [of "''/usr/bin/python3''" "JStr ''echo ok''"
      ?d "JStr ''e7''" "JStr ''echo ok''" "JStr ''probe''" "reference_agent 1000"]
  note others = dispatch [THEN conjunct2, THEN conjunct2, THEN conjunct2, THEN conjunct2,
      THEN conjunct1, rule_format]
  note runs = dispatch [THEN conjunct2, THEN conjunct2, THEN conjunct2, THEN conjunct2,
      THEN conjunct2, rule_format]
  have ruby: "interpreter_argv ''/usr/bin/python3'' (JStr ''ruby'') (JStr ''echo ok'') =
     [JStr ''bash'', JStr ''-c'', JStr ''echo ok'']"
    by (rule others) simp
  have absent: "interpreter_argv ''/usr/bin/python3'' JNull (JStr ''echo ok'') =
     [JStr ''bash'', JStr ''-c'', JStr ''echo ok'']"
    by (rule others) simp
  have keys: "map_of ?d ''execution_id'' = Some (JStr ''e7'') \<and>
      map_of ?d ''content'' = Some (JStr ''echo ok'') \<and>
      map_of ?d ''script_name'' = Some (JStr ''probe'')"
    by simp
  have "\<exists>evs. trace (snd (execute_script (JObj ?d) (reference_agent 1000))) =
      Spawn 1000 [JStr ''bash'', JStr ''-c'', JStr ''echo ok''] 300 # evs"
    using runs [OF keys] by (simp add: reference_agent_def interpreter_argv_def)
  with ruby absent show ?thesis by (intro conjI)
qed

text \<open>
  Claim C2. When the script has not exited after 300 seconds, the child is killed at
  that moment and the one result that is reported carries exit code \<open>-1\<close>, an empty
  standard output and the fixed text \<^verbatim>\<open>Execution timed out\<close>; nothing the script wrote
  is in it.
\<close>

theorem timeout_result_synthesized:
  assumes "map_of d ''execution_id'' = Some i" "map_of d ''content'' = Some c"
    "map_of d ''script_name'' = Some n"
    and "argv = interpreter_argv (sys_executable a)
           (case map_of d ''script_type'' of None \<Rightarrow> JStr ''bash'' | Some t \<Rightarrow> t) c"
    and "overruns 300 (processes a (processes_run a) argv)"
  shows "trace (snd (execute_script (JObj d) a)) =
           trace a @ [Spawn (clock a) argv 300, Kill (clock a + 300),
                      Request (clock a + 300) (POST (ResultEP i)
                        [(''exit_code'', JNum (- 1)), (''stdout'', JStr []),
                         (''stderr'', JStr ''Execution timed out'')])]"
proof -
  let ?t = "case map_of d ''script_type'' of None \<Rightarrow> JStr ''bash'' | Some t \<Rightarrow> t"
  let ?a1 = "a\<lparr>trace := trace a @ [Spawn (clock a) argv 300],
               processes_run := Suc (processes_run a)\<rparr>"
  have "subprocess_run argv 300 a = timed_out 300 ?a1"
    using assms(5)
    by (cases "processes a (processes_run a) argv") (simp_all add: subprocess_run_def)
  then have "guarded_run i c ?t a = report i timeout_payload (snd (timed_out 300 ?a1))"
    using assms(4) by (simp add: guarded_run_def run_and_report_def timed_out_def)
  then show ?thesis
    using execute_script_wellformed [OF assms(1-3), of a]
      report_trace [of i timeout_payload "snd (timed_out 300 ?a1)"]
    by (simp add: timed_out_def timeout_payload_def)
qed

theorem timeout_result_synthesized_witness:
  "overruns 300 (Exits 400 0 ''late output'' ''late error'') \<and>
   trace (snd (execute_script reference_task slow_script_agent)) =
     [Spawn 1000 [JStr ''bash'', JStr ''-c'', JStr ''echo ok''] 300, Kill 1300,
      Request 1300 (POST (ResultEP (JStr ''e1''))
        [(''exit_code'', JNum (- 1)), (''stdout'', JStr []),
         (''stderr'', JStr ''Execution timed out'')])]"
  using timeout_result_synthesized [of "[(''execution_id'', JStr ''e1''), (''script_name'', JStr ''probe''),
           (''content'', JStr ''echo ok''), (''script_type'', JStr ''bash'')]"
       "JStr ''e1''" "JStr ''echo ok''" "JStr ''probe''"
       "[JStr ''bash'', JStr ''-c'', JStr ''echo ok'']" slow_script_agent]
  by (simp add: reference_task_def slow_script_agent_def reference_agent_def interpreter_argv_def)

section \<open>The scheduler\<close>

lemma tick_returns: "fst (tick st) = Returns ()"
  by (cases st) (simp add: tick_eq Let_def)

lemma tick_schedule:
  "snd (snd (tick (a, sch))) =
     \<lparr>last_heartbeat = (if HEARTBEAT_INTERVAL \<le> clock a - last_heartbeat sch then clock a
                        else last_heartbeat sch),
      last_metrics = (if METRICS_INTERVAL \<le> clock a - last_metrics sch then clock a
                      else last_metrics sch),
      last_script_poll = (if SCRIPT_POLL_INTERVAL \<le> clock a - last_script_poll sch then clock a
                          else last_script_poll sch)\<rparr>"
  by (simp add: tick_eq Let_def)

lemma time_sleep_trace: "trace (time_sleep d a) = trace a @ [Sleep (clock a) d]"
  by (simp add: time_sleep_def)

lemma duties_started_single: "duties_started [e] = duty_of e"
  by (simp add: duties_started_def)

lemma duties_started_Cons: "duties_started (e # evs) = duty_of e @ duties_started evs"
  by (simp add: duties_started_def)

text \<open>What each duty adds to the trace when it is due.\<close>

lemma heartbeat_starts:
  "\<exists>evs. trace (snd (heartbeat a)) = trace a @ evs \<and> duties_started evs = [HeartbeatDuty]"
  using heartbeat_trace [of a] by (simp add: duties_started_single)

lemma metrics_starts:
  "\<exists>evs. trace (snd (collect_and_push_metrics a)) = trace a @ evs \<and> duties_started evs = [MetricsDuty]"
proof -
  obtain evs where "trace (snd (collect_and_push_metrics a)) = trace a @ Sample (clock a) # evs"
      "duties_started evs = []"
    using collect_and_push_metrics_events by blast
  then show ?thesis
    by (intro exI [of _ "Sample (clock a) # evs"]) (simp add: duties_started_Cons)
qed

lemma poll_starts:
  "\<exists>evs. trace (snd (poll_and_execute_scripts a)) = trace a @ evs \<and> duties_started evs = [ScriptPollDuty]"
proof -
  obtain evs where "trace (snd (poll_and_execute_scripts a)) = trace a @ Request (clock a) (GET ScriptsEP) # evs"
      "duties_started evs = []"
    using poll_and_execute_scripts_events by blast
  then show ?thesis
    by (intro exI [of _ "Request (clock a) (GET ScriptsEP) # evs"]) (simp add: duties_started_Cons)
qed

lemma when_due:
  assumes "\<exists>evs. trace (f a) = trace a @ evs \<and> duties_started evs = [d]"
  shows "\<exists>evs. trace (if due then f a else a) = trace a @ evs \<and>
           duties_started evs = (if due then [d] else [])"
  using assms by (cases due) (simp_all add: duties_started_def)

text \<open>The duties a tick starts are exactly the due ones, in the order of the source.\<close>

lemma tick_duties:
  "\<exists>evs. trace (fst (snd (tick (a, sch)))) = trace a @ evs \<and>
     duties_started evs =
       (if HEARTBEAT_INTERVAL \<le> clock a - last_heartbeat sch then [HeartbeatDuty] else []) @
       (if METRICS_INTERVAL \<le> clock a - last_metrics sch then [MetricsDuty] else []) @
       (if SCRIPT_POLL_INTERVAL \<le> clock a - last_script_poll sch then [ScriptPollDuty] else [])"
proof -
  define a1 where "a1 = (if HEARTBEAT_INTERVAL \<le> clock a - last_heartbeat sch then snd (heartbeat a) else a)"
  define a2 where "a2 = (if METRICS_INTERVAL \<le> clock a - last_metrics sch
                         then snd (collect_and_push_metrics a1) else a1)"
  define a3 where "a3 = (if SCRIPT_POLL_INTERVAL \<le> clock a - last_script_poll sch
                         then snd (poll_and_execute_scripts a2) else a2)"
  obtain e1 where e1: "trace a1 = trace a @ e1"
    "duties_started e1 = (if HEARTBEAT_INTERVAL \<le> clock a - last_heartbeat sch then [HeartbeatDuty] else [])"
    unfolding a1_def
    using when_due [of "\<lambda>x. snd (heartbeat x)" a HeartbeatDuty] heartbeat_starts [of a] by blast
  obtain e2 where e2: "trace a2 = trace a1 @ e2"
    "duties_started e2 = (if METRICS_INTERVAL \<le> clock a - last_metrics sch then [MetricsDuty] else [])"
    unfolding a2_def
    using when_due [of "\<lambda>x. snd (collect_and_push_metrics x)" a1 MetricsDuty] metrics_starts [of a1]
    by blast
  obtain e3 where e3: "trace a3 = trace a2 @ e3"
    "duties_started e3 = (if SCRIPT_POLL_INTERVAL \<le> clock a - last_script_poll sch then [ScriptPollDuty] else [])"
    unfolding a3_def
    using when_due [of "\<lambda>x. snd (poll_and_execute_scripts x)" a2 ScriptPollDuty] poll_starts [of a2]
    by blast
  have "fst (snd (tick (a, sch))) = time_sleep 1 a3"
    by (simp add: tick_eq Let_def a1_def a2_def a3_def)
  then have "trace (fst (snd (tick (a, sch)))) = trace a @ (e1 @ e2 @ e3 @ [Sleep (clock a3) 1])"
    using e1(1) e2(1) e3(1) by (simp add: time_sleep_trace)
  moreover have "duties_started (e1 @ e2 @ e3 @ [Sleep (clock a3) 1]) =
       (if HEARTBEAT_INTERVAL \<le> clock a - last_heartbeat sch then [HeartbeatDuty] else []) @
       (if METRICS_INTERVAL \<le> clock a - last_metrics sch then [MetricsDuty] else []) @
       (if SCRIPT_POLL_INTERVAL \<le> clock a - last_script_poll sch then [ScriptPollDuty] else [])"
    using e1(2) e2(2) e3(2) by (simp add: duties_started_single)
  ultimately show ?thesis by blast
qed

lemma register_reference:
  "register (reference_agent t0) =
     (Returns True,
      (reference_agent t0)\<lparr>agent_id := JStr ''agent-1'',
        trace := [Request t0 (register_request (reference_agent t0))],
        requests_made := Suc 0\<rparr>)"
  by (simp add: register_def register_body_def register_request_def session_request_def
      resp_json_def reference_agent_def)

text \<open>The events of the metrics duty: the sample, and the push when the sample returns.\<close>

lemma collect_and_push_metrics_trace:
  "trace (snd (collect_and_push_metrics a)) =
     trace a @ Sample (clock a) #
       (case snd (metrics_source a (samples_taken a) (clock a)) of
          Returns m \<Rightarrow> [Request (clock a + fst (metrics_source a (samples_taken a) (clock a)))
                          (POST MetricsEP m)]
        | Raises e \<Rightarrow> [])"
proof (cases "metrics_source a (samples_taken a) (clock a)")
  case (Pair latency r)
  show ?thesis
  proof (cases r)
    case (Raises e)
    with Pair show ?thesis
      by (simp add: collect_and_push_metrics_def collect_and_push_metrics_body_def
          collect_metrics_def)
  next
    case (Returns m)
    let ?a1 = "a\<lparr>clock := clock a + latency, trace := trace a @ [Sample (clock a)],
                  samples_taken := Suc (samples_taken a)\<rparr>"
    have "collect_metrics a = (Returns m, ?a1)"
      using Pair Returns by (simp add: collect_metrics_def)
    then have "trace (snd (collect_and_push_metrics a)) =
        trace (snd (session_request (POST MetricsEP m) ?a1))"
      by (cases "session_request (POST MetricsEP m) ?a1" rule: outcome_state_cases)
         (simp_all add: collect_and_push_metrics_def collect_and_push_metrics_body_def)
    then show ?thesis
      using Pair Returns by (simp add: session_request_trace)
  qed
qed

text \<open>
  Claim C10. The three time stamps start at 0 and are compared with the reading of the
  wall clock, which counts seconds since 1970 and so is at least 30: on the first
  iteration after a successful registration the heartbeat, the metrics push and the
  script poll all run, in this order, and all three stamps become the time of that tick.
  The events of that tick begin with the heartbeat POST, the metrics sample, the POST
  of the sampled metrics (when the sample returns them) and the GET of the scripts.
\<close>

theorem first_tick_fires_all_duties:
  "fst (register a0) = Returns True \<Longrightarrow> a = snd (register a0) \<Longrightarrow> running a \<Longrightarrow> 30 \<le> clock a \<Longrightarrow>
     run (Suc n) a0 = run_loop n (snd (tick (a, initial_schedule))) \<and>
     snd (snd (tick (a, initial_schedule))) =
       \<lparr>last_heartbeat = clock a, last_metrics = clock a, last_script_poll = clock a\<rparr> \<and>
     (\<exists>evs. trace (fst (snd (tick (a, initial_schedule)))) = trace a @ evs \<and>
            duties_started evs = [HeartbeatDuty, MetricsDuty, ScriptPollDuty]) \<and>
     (\<exists>evs. trace (fst (snd (tick (a, initial_schedule)))) =
        trace a @
        Request (clock a) (POST HeartbeatEP
          [(''agent_version'', JStr VERSION),
           (''uptime_seconds'', JNum (py_int (clock a - boot_time a)))]) #
        Sample (clock (snd (heartbeat a))) #
        (case snd (metrics_source (snd (heartbeat a)) (samples_taken (snd (heartbeat a)))
                     (clock (snd (heartbeat a)))) of
           Returns m \<Rightarrow>
             [Request (clock (snd (heartbeat a)) +
                       fst (metrics_source (snd (heartbeat a)) (samples_taken (snd (heartbeat a)))
                              (clock (snd (heartbeat a)))))
                (POST MetricsEP m)]
         | Raises e \<Rightarrow> []) @
        Request (clock (snd (collect_and_push_metrics (snd (heartbeat a))))) (GET ScriptsEP) # evs)"
proof -
  assume reg: "fst (register a0) = Returns True" and a: "a = snd (register a0)"
    and run: "running a" and late: "30 \<le> clock a"
  let ?a1 = "snd (heartbeat a)"
  let ?a2 = "snd (collect_and_push_metrics ?a1)"
  let ?a3 = "snd (poll_and_execute_scripts ?a2)"
  have "register a0 = (Returns True, a)"
    using reg a by (cases "register a0") simp
  then have "run (Suc n) a0 = run_loop n (snd (tick (a, initial_schedule)))"
    using run tick_returns [of "(a, initial_schedule)"]
    by (cases "tick (a, initial_schedule)") (simp add: run_def)
  moreover have "snd (snd (tick (a, initial_schedule))) =
       \<lparr>last_heartbeat = clock a, last_metrics = clock a, last_script_poll = clock a\<rparr>"
    using late
    by (simp add: tick_schedule initial_schedule_def HEARTBEAT_INTERVAL_def METRICS_INTERVAL_def
        SCRIPT_POLL_INTERVAL_def)
  moreover have "\<exists>evs. trace (fst (snd (tick (a, initial_schedule)))) = trace a @ evs \<and>
            duties_started evs = [HeartbeatDuty, MetricsDuty, ScriptPollDuty]"
    using tick_duties [of a initial_schedule] late
    by (simp add: initial_schedule_def HEARTBEAT_INTERVAL_def METRICS_INTERVAL_def
        SCRIPT_POLL_INTERVAL_def)
  moreover have "\<exists>evs. trace (fst (snd (tick (a, initial_schedule)))) =
        trace a @
        Request (clock a) (POST HeartbeatEP
          [(''agent_version'', JStr VERSION),
           (''uptime_seconds'', JNum (py_int (clock a - boot_time a)))]) #
        Sample (clock ?a1) #
        (case snd (metrics_source ?a1 (samples_taken ?a1) (clock ?a1)) of
           Returns m \<Rightarrow>
             [Request (clock ?a1 + fst (metrics_source ?a1 (samples_taken ?a1) (clock ?a1)))
                (POST MetricsEP m)]
         | Raises e \<Rightarrow> []) @
        Request (clock ?a2) (GET ScriptsEP) # evs"
  proof -
    have t: "fst (snd (tick (a, initial_schedule))) = time_sleep 1 ?a3"
      using late
      by (simp add: tick_eq Let_def initial_schedule_def HEARTBEAT_INTERVAL_def
          METRICS_INTERVAL_def SCRIPT_POLL_INTERVAL_def)
    obtain evs where evs: "trace ?a3 = trace ?a2 @ Request (clock ?a2) (GET ScriptsEP) # evs"
      using poll_and_execute_scripts_events [of ?a2] by blast
    show ?thesis
      by (intro exI [of _ "evs @ [Sleep (clock ?a3) 1]"])
         (simp add: t time_sleep_trace evs collect_and_push_metrics_trace heartbeat_trace)
  qed
  ultimately show ?thesis by (intro conjI)
qed

theorem first_tick_fires_all_duties_witness:
  "fst (register (reference_agent 1700000000)) = Returns True \<and>
   running (snd (register (reference_agent 1700000000))) \<and>
   (30 :: real) \<le> clock (snd (register (reference_agent 1700000000))) \<and>
   snd (snd (tick (snd (register (reference_agent 1700000000)), initial_schedule))) =
     \<lparr>last_heartbeat = 1700000000, last_metrics = 1700000000, last_script_poll = 1700000000\<rparr> \<and>
   (\<exists>evs. trace (fst (snd (tick (snd (register (reference_agent 1700000000)), initial_schedule)))) =
            trace (snd (register (reference_agent 1700000000))) @ evs \<and>
          duties_started evs = [HeartbeatDuty, MetricsDuty, ScriptPollDuty]) \<and>
   (\<exists>evs. trace (fst (snd (tick (snd (register (reference_agent 1700000000)), initial_schedule)))) =
      [Request 1700000000 (register_request (reference_agent 1700000000)),
       Request 1700000000 (POST HeartbeatEP
          [(''agent_version'', JStr VERSION), (''uptime_seconds'', JNum 0)]),
       Sample 1700000000,
       Request 1700000001 (POST MetricsEP []),
       Request 1700000001 (GET ScriptsEP)] @ evs)"
proof -
  let ?start = "reference_agent 1700000000"
  let ?reg = "snd (register ?start)"
  have reg: "fst (register ?start) = Returns True"
    by (simp add: register_reference)
  have run: "running ?reg"
    unfolding register_reference by (simp add: running_def reference_agent_def)
  have late: "30 \<le> clock ?reg"
    unfolding register_reference by (simp add: reference_agent_def)
  have clk: "clock ?reg = 1700000000" "boot_time ?reg = 1700000000"
    "trace ?reg = [Request 1700000000 (register_request ?start)]"
    unfolding register_reference by (simp_all add: reference_agent_def)
  have hb: "clock (snd (heartbeat ?reg)) = 1700000000"
    "metrics_source (snd (heartbeat ?reg)) = (\<lambda>n t. (1, Returns []))"
    unfolding register_reference
    by (simp_all add: heartbeat_def heartbeat_body_def session_request_def reference_agent_def)
  have mt: "clock (snd (collect_and_push_metrics (snd (heartbeat ?reg)))) = 1700000001"
    unfolding register_reference
    by (simp add: collect_and_push_metrics_def collect_and_push_metrics_body_def
        collect_metrics_def heartbeat_def heartbeat_body_def session_request_def
        reference_agent_def)
  note first = first_tick_fires_all_duties [OF reg refl run late, of 0]
  have stamps: "snd (snd (tick (?reg, initial_schedule))) =
     \<lparr>last_heartbeat = 1700000000, last_metrics = 1700000000, last_script_poll = 1700000000\<rparr>"
    using first clk(1) by simp
  have started: "\<exists>evs. trace (fst (snd (tick (?reg, initial_schedule)))) = trace ?reg @ evs \<and>
          duties_started evs = [HeartbeatDuty, MetricsDuty, ScriptPollDuty]"
    using first by (elim conjE)
  have events: "\<exists>evs. trace (fst (snd (tick (?reg, initial_schedule)))) =
      [Request 1700000000 (register_request ?start),
       Request 1700000000 (POST HeartbeatEP
          [(''agent_version'', JStr VERSION), (''uptime_seconds'', JNum 0)]),
       Sample 1700000000,
       Request 1700000001 (POST MetricsEP []),
       Request 1700000001 (GET ScriptsEP)] @ evs"
    using first [THEN conjunct2, THEN conjunct2, THEN conjunct2]
    by (simp add: clk hb mt py_int_def)
  show ?thesis
    using reg run late stamps started events by (intro conjI)
qed

text \<open>
  Claim C8. Whatever happens inside a duty, a transport error during the metrics push
  for instance, the tick returns normally; each duty writes its own time stamp only,
  and writes it whether it failed or not, so the stamps after a tick depend on the
  clock and the old stamps alone; and in any later tick at which the interval of a
  duty has passed since its stamp, that duty is started again.
\<close>

theorem duty_failure_contained:
  "fst (tick (a, sch)) = Returns () \<and>
   fst (heartbeat_duty now (a, sch)) = Returns () \<and>
   last_metrics (snd (snd (heartbeat_duty now (a, sch)))) = last_metrics sch \<and>
   last_script_poll (snd (snd (heartbeat_duty now (a, sch)))) = last_script_poll sch \<and>
   fst (metrics_duty now (a, sch)) = Returns () \<and>
   last_heartbeat (snd (snd (metrics_duty now (a, sch)))) = last_heartbeat sch \<and>
   last_script_poll (snd (snd (metrics_duty now (a, sch)))) = last_script_poll sch \<and>
   fst (script_poll_duty now (a, sch)) = Returns () \<and>
   last_heartbeat (snd (snd (script_poll_duty now (a, sch)))) = last_heartbeat sch \<and>
   last_metrics (snd (snd (script_poll_duty now (a, sch)))) = last_metrics sch \<and>
   snd (snd (tick (a, sch))) =
     \<lparr>last_heartbeat = (if HEARTBEAT_INTERVAL \<le> clock a - last_heartbeat sch then clock a
                        else last_heartbeat sch),
      last_metrics = (if METRICS_INTERVAL \<le> clock a - last_metrics sch then clock a
                      else last_metrics sch),
      last_script_poll = (if SCRIPT_POLL_INTERVAL \<le> clock a - last_script_poll sch then clock a
                          else last_script_poll sch)\<rparr> \<and>
   (HEARTBEAT_INTERVAL \<le> clock b - last_heartbeat (snd (snd (tick (a, sch)))) \<longrightarrow>
      (\<exists>evs. trace (fst (snd (tick (b, snd (snd (tick (a, sch))))))) = trace b @ evs \<and>
             HeartbeatDuty \<in> set (duties_started evs))) \<and>
   (METRICS_INTERVAL \<le> clock b - last_metrics (snd (snd (tick (a, sch)))) \<longrightarrow>
      (\<exists>evs. trace (fst (snd (tick (b, snd (snd (tick (a, sch))))))) = trace b @ evs \<and>
             MetricsDuty \<in> set (duties_started evs))) \<and>
   (SCRIPT_POLL_INTERVAL \<le> clock b - last_script_poll (snd (snd (tick (a, sch)))) \<longrightarrow>
      (\<exists>evs. trace (fst (snd (tick (b, snd (snd (tick (a, sch))))))) = trace b @ evs \<and>
             ScriptPollDuty \<in> set (duties_started evs)))"
proof -
  let ?sch' = "snd (snd (tick (a, sch)))"
  obtain evs where evs: "trace (fst (snd (tick (b, ?sch')))) = trace b @ evs"
    "duties_started evs =
       (if HEARTBEAT_INTERVAL \<le> clock b - last_heartbeat ?sch' then [HeartbeatDuty] else []) @
       (if METRICS_INTERVAL \<le> clock b - last_metrics ?sch' then [MetricsDuty] else []) @
       (if SCRIPT_POLL_INTERVAL \<le> clock b - last_script_poll ?sch' then [ScriptPollDuty] else [])"
    using tick_duties [of b ?sch'] by blast
  have again: "HEARTBEAT_INTERVAL \<le> clock b - last_heartbeat ?sch' \<longrightarrow>
      (\<exists>evs. trace (fst (snd (tick (b, ?sch')))) = trace b @ evs \<and> HeartbeatDuty \<in> set (duties_started evs))"
    "METRICS_INTERVAL \<le> clock b - last_metrics ?sch' \<longrightarrow>
      (\<exists>evs. trace (fst (snd (tick (b, ?sch')))) = trace b @ evs \<and> MetricsDuty \<in> set (duties_started evs))"
    "SCRIPT_POLL_INTERVAL \<le> clock b - last_script_poll ?sch' \<longrightarrow>
      (\<exists>evs. trace (fst (snd (tick (b, ?sch')))) = trace b @ evs \<and> ScriptPollDuty \<in> set (duties_started evs))"
    using evs by (intro impI exI [of _ evs]; simp)+
  have frame: "fst (heartbeat_duty now (a, sch)) = Returns ()"
    "last_metrics (snd (snd (heartbeat_duty now (a, sch)))) = last_metrics sch"
    "last_script_poll (snd (snd (heartbeat_duty now (a, sch)))) = last_script_poll sch"
    "fst (metrics_duty now (a, sch)) = Returns ()"
    "last_heartbeat (snd (snd (metrics_duty now (a, sch)))) = last_heartbeat sch"
    "last_script_poll (snd (snd (metrics_duty now (a, sch)))) = last_script_poll sch"
    "fst (script_poll_duty now (a, sch)) = Returns ()"
    "last_heartbeat (snd (snd (script_poll_duty now (a, sch)))) = last_heartbeat sch"
    "last_metrics (snd (snd (script_poll_duty now (a, sch)))) = last_metrics sch"
    by (simp_all add: heartbeat_duty_eq metrics_duty_eq script_poll_duty_eq)
  show ?thesis
    using tick_returns [of "(a, sch)"] tick_schedule [of a sch] again frame by blast
qed

theorem duty_failure_contained_witness:
  "fst (collect_and_push_metrics_body (snd (heartbeat (metrics_down_agent 1000)))) =
     Raises (Exception ''Connection refused'') \<and>
   fst (tick (metrics_down_agent 1000, initial_schedule)) = Returns () \<and>
   snd (snd (tick (metrics_down_agent 1000, initial_schedule))) =
     \<lparr>last_heartbeat = 1000, last_metrics = 1000, last_script_poll = 1000\<rparr> \<and>
   METRICS_INTERVAL \<le> clock (metrics_down_agent 1030) -
     last_metrics (snd (snd (tick (metrics_down_agent 1000, initial_schedule)))) \<and>
   (\<exists>evs. trace (fst (snd (tick (metrics_down_agent 1030,
              snd (snd (tick (metrics_down_agent 1000, initial_schedule))))))) =
            trace (metrics_down_agent 1030) @ evs \<and>
          MetricsDuty \<in> set (duties_started evs))"
proof -
  let ?a = "metrics_down_agent 1000" and ?b = "metrics_down_agent 1030"
  note contained = duty_failure_contained [of ?a initial_schedule 1000 ?b]
  have sch: "snd (snd (tick (?a, initial_schedule))) =
      \<lparr>last_heartbeat = 1000, last_metrics = 1000, last_script_poll = 1000\<rparr>"
    using contained
    by (simp add: initial_schedule_def HEARTBEAT_INTERVAL_def METRICS_INTERVAL_def
        SCRIPT_POLL_INTERVAL_def metrics_down_agent_def reference_agent_def)
  have fails: "fst (collect_and_push_metrics_body (snd (heartbeat ?a))) =
      Raises (Exception ''Connection refused'')"
    by (simp add: collect_and_push_metrics_body_def collect_metrics_def heartbeat_def
        heartbeat_body_def session_request_def metrics_down_agent_def reference_agent_def)
  have due: "METRICS_INTERVAL \<le> clock ?b - last_metrics (snd (snd (tick (?a, initial_schedule))))"
    unfolding sch by (simp add: METRICS_INTERVAL_def metrics_down_agent_def reference_agent_def)
  show ?thesis
    using contained fails due sch by simp
qed

section \<open>Registration and the end of the process\<close>

lemma register_state:
  "\<exists>aid. snd (register a) = (snd (session_request (register_request a) a))\<lparr>agent_id := aid\<rparr>"
proof (cases "session_request (register_request a) a" rule: outcome_state_cases)
  case (Raises e a1)
  then show ?thesis
    by (intro exI [of _ "agent_id a1"]) (simp add: register_def register_body_def)
next
  case (Returns resp a1)
  show ?thesis
  proof (cases "status_code resp = 200")
    case False
    with Returns show ?thesis
      by (intro exI [of _ "agent_id a1"]) (simp add: register_def register_body_def)
  next
    case True
    show ?thesis
    proof (cases "resp_json resp")
      case (Raises e)
      with True Returns show ?thesis
        by (intro exI [of _ "agent_id a1"]) (simp add: register_def register_body_def)
    next
      case data: (Returns data)
      show ?thesis
      proof (cases "py_get data ''agent_id'' JNull")
        case (Raises e)
        with data True Returns show ?thesis
          by (intro exI [of _ "agent_id a1"]) (simp add: register_def register_body_def)
      next
        case aid: (Returns aid)
        with data True Returns show ?thesis
          by (intro exI [of _ aid]) (simp add: register_def register_body_def)
      qed
    qed
  qed
qed

lemma register_trace:
  "trace (snd (register a)) = trace a @ [Request (clock a) (register_request a)]"
  using register_state [of a] session_request_trace [of "register_request a" a] by auto

lemma session_request_config:
  "token (snd (session_request rq a)) = token a"
  "hostname (snd (session_request rq a)) = hostname a"
  "on_linux (snd (session_request rq a)) = on_linux a"
  by (simp_all add: session_request_def Let_def split: prod.splits reply.splits)

lemma register_request_kept:
  "register_request (snd (register a)) = register_request a"
proof -
  obtain aid where "snd (register a) = (snd (session_request (register_request a) a))\<lparr>agent_id := aid\<rparr>"
    using register_state by blast
  then show ?thesis
    unfolding register_request_def [of "snd (register a)"]
    by (simp add: session_request_config) (simp add: register_request_def)
qed

lemma register_True:
  assumes "fst (register a) = Returns True"
  shows "\<exists>latency d. server a (requests_made a) (clock a) (register_request a) =
            (latency, Replies (Response 200 (Some (JObj d)))) \<and>
          agent_id (snd (register a)) = (case map_of d ''agent_id'' of None \<Rightarrow> JNull | Some v \<Rightarrow> v)"
proof (cases "server a (requests_made a) (clock a) (register_request a)")
  case (Pair latency rep)
  show ?thesis
  proof (cases rep)
    case (Fails msg)
    with Pair assms show ?thesis
      by (simp add: register_def register_body_def session_request_def)
  next
    case (Replies resp)
    obtain st bd where resp: "resp = Response st bd" by (cases resp)
    show ?thesis
    proof (cases bd)
      case None
      with resp Replies Pair assms show ?thesis
        by (simp add: register_def register_body_def session_request_def resp_json_def
            split: if_splits)
    next
      case (Some data)
      show ?thesis
      proof (cases data)
        case (JObj d)
        with Some resp Replies Pair assms show ?thesis
          by (cases "map_of d ''agent_id''")
             (simp_all add: register_def register_body_def session_request_def resp_json_def
               split: if_splits)
      qed (use Some resp Replies Pair assms in
            \<open>simp_all add: register_def register_body_def session_request_def resp_json_def
               split: if_splits\<close>)
    qed
  qed
qed

lemma run_loop_ending:
  "fst (run_loop n st) = Some e \<Longrightarrow> e = Finished \<and> \<not> running (fst (snd (run_loop n st)))"
proof (induction n arbitrary: st)
  case 0
  then show ?case by simp
next
  case (Suc n)
  show ?case
  proof (cases "running (fst st)")
    case False
    with Suc.prems show ?thesis by simp
  next
    case True
    obtain st' where "tick st = (Returns (), st')"
      using tick_returns [of st] by (cases "tick st") auto
    with True Suc.prems Suc.IH [of st'] show ?thesis by simp
  qed
qed

lemma register_False_or_True:
  "fst (register a) \<noteq> Returns True \<Longrightarrow> fst (register a) = Returns False"
  using register_returns [of a] by auto

lemma run_after_two_failures:
  assumes "fst (register a) = Returns False"
    and "fst (register (time_sleep 30 (snd (register a)))) = Returns False"
  shows "run fuel a = (Some (SysExit 1), snd (register (time_sleep 30 (snd (register a)))), initial_schedule)"
  using assms
  by (cases "register a"; cases "register (time_sleep 30 (snd (register a)))") (simp add: run_def)

lemma run_after_retry:
  assumes "fst (register a) = Returns False"
    and "fst (register (time_sleep 30 (snd (register a)))) = Returns True"
  shows "run fuel a = run_loop fuel (snd (register (time_sleep 30 (snd (register a)))), initial_schedule)"
  using assms
  by (cases "register a"; cases "register (time_sleep 30 (snd (register a)))") (simp add: run_def)

lemma run_after_success:
  assumes "fst (register a) = Returns True"
  shows "run fuel a = run_loop fuel (snd (register a), initial_schedule)"
  using assms by (cases "register a") (simp add: run_def)

lemma retry_trace:
  "trace (snd (register (time_sleep 30 (snd (register a))))) =
     trace a @ [Request (clock a) (register_request a), Sleep (clock (snd (register a))) 30,
                Request (clock (snd (register a)) + 30) (register_request a)]"
proof -
  have "register_request (time_sleep 30 (snd (register a))) = register_request a"
    using register_request_kept [of a] by (simp add: register_request_def time_sleep_def)
  then show ?thesis
    by (simp add: register_trace time_sleep_trace) (simp add: time_sleep_def)
qed

lemma run_ending:
  "fst (run fuel a) = Some e \<Longrightarrow> exit_code e = 0 \<Longrightarrow> e = Finished \<and> \<not> running (fst (snd (run fuel a)))"
proof (cases "fst (register a) = Returns True")
  case True
  assume "fst (run fuel a) = Some e"
  then show ?thesis
    using run_after_success [OF True, of fuel] run_loop_ending by simp
next
  case False
  then have first: "fst (register a) = Returns False" by (rule register_False_or_True)
  assume e: "fst (run fuel a) = Some e" and zero: "exit_code e = 0"
  show ?thesis
  proof (cases "fst (register (time_sleep 30 (snd (register a)))) = Returns True")
    case True
    with e show ?thesis
      using run_after_retry [OF first True, of fuel] run_loop_ending by simp
  next
    case False
    then have "fst (register (time_sleep 30 (snd (register a)))) = Returns False"
      by (rule register_False_or_True)
    with e zero show ?thesis
      using run_after_two_failures [OF first, of fuel] by auto
  qed
qed

text \<open>
  Claim C3. When the first registration fails the agent sleeps 30 seconds and registers
  once more, so that exactly two registration requests are made; when the second fails
  too the process ends through \<^verbatim>\<open>sys.exit(1)\<close>, and when it succeeds the run loop is
  entered. The process ends with exit code 0 only by leaving the loop after the signal
  has cleared \<^verbatim>\<open>running\<close>.
\<close>

theorem registration_retried_once:
  "(fst (register a) = Returns False \<longrightarrow>
      trace (snd (register (time_sleep 30 (snd (register a))))) =
        trace a @ [Request (clock a) (register_request a), Sleep (clock (snd (register a))) 30,
                   Request (clock (snd (register a)) + 30) (register_request a)] \<and>
      (fst (register (time_sleep 30 (snd (register a)))) = Returns False \<longrightarrow>
         run fuel a = (Some (SysExit 1), snd (register (time_sleep 30 (snd (register a)))),
                       initial_schedule) \<and>
         map_option exit_code (fst (run fuel a)) = Some 1) \<and>
      (fst (register (time_sleep 30 (snd (register a)))) = Returns True \<longrightarrow>
         run fuel a = run_loop fuel (snd (register (time_sleep 30 (snd (register a)))),
                                     initial_schedule))) \<and>
   (\<forall>e. fst (run fuel a) = Some e \<longrightarrow> exit_code e = 0 \<longrightarrow>
        e = Finished \<and> \<not> running (fst (snd (run fuel a))))"
  using retry_trace [of a] run_after_two_failures [of a fuel] run_after_retry [of a fuel]
    run_ending [of fuel a]
  by simp

theorem registration_retried_once_witness:
  "fst (register (rejected_agent 2)) = Returns False \<and>
   fst (register (time_sleep 30 (snd (register (rejected_agent 2))))) = Returns False \<and>
   trace (snd (register (time_sleep 30 (snd (register (rejected_agent 2)))))) =
     [Request 1000 (register_request (rejected_agent 2)), Sleep 1000 30,
      Request 1030 (register_request (rejected_agent 2))] \<and>
   map_option exit_code (fst (run 5 (rejected_agent 2))) = Some 1 \<and>
   fst (register (rejected_agent 1)) = Returns False \<and>
   fst (register (time_sleep 30 (snd (register (rejected_agent 1))))) = Returns True \<and>
   run 5 (rejected_agent 1) =
     run_loop 5 (snd (register (time_sleep 30 (snd (register (rejected_agent 1))))), initial_schedule) \<and>
   fst (run 5 (rejected_agent 1)) = Some Finished \<and>
   exit_code Finished = 0 \<and>
   \<not> running (fst (snd (run 5 (rejected_agent 1))))"
proof -
  have s2: "snd (register (rejected_agent 2)) =
      (rejected_agent 2)\<lparr>trace := [Request 1000 (register_request (rejected_agent 2))],
         requests_made := Suc 0\<rparr>"
    by (simp add: register_def register_body_def session_request_def rejecting_server_def
        rejected_agent_def reference_agent_def register_request_def)
  have s1: "snd (register (rejected_agent 1)) =
      (rejected_agent 1)\<lparr>trace := [Request 1000 (register_request (rejected_agent 1))],
         requests_made := Suc 0\<rparr>"
    by (simp add: register_def register_body_def session_request_def rejecting_server_def
        rejected_agent_def reference_agent_def register_request_def)
  have f2: "fst (register (rejected_agent 2)) = Returns False"
    by (simp add: register_def register_body_def session_request_def rejecting_server_def
        rejected_agent_def reference_agent_def)
  have f1: "fst (register (rejected_agent 1)) = Returns False"
    by (simp add: register_def register_body_def session_request_def rejecting_server_def
        rejected_agent_def reference_agent_def)
  have g2: "fst (register (time_sleep 30 (snd (register (rejected_agent 2))))) = Returns False"
    unfolding s2
    by (simp add: register_def register_body_def session_request_def rejecting_server_def
        rejected_agent_def reference_agent_def time_sleep_def)
  have g1: "fst (register (time_sleep 30 (snd (register (rejected_agent 1))))) = Returns True"
    unfolding s1
    by (simp add: register_def register_body_def session_request_def rejecting_server_def
        rejected_agent_def reference_agent_def time_sleep_def register_request_def resp_json_def)
  have c2: "clock (rejected_agent 2) = 1000" "trace (rejected_agent 2) = []"
    "clock (snd (register (rejected_agent 2))) = 1000"
    unfolding s2 by (simp_all add: rejected_agent_def reference_agent_def)
  have fin: "fst (run 5 (rejected_agent 1)) = Some Finished"
    unfolding run_after_retry [OF f1 g1]
    by (simp add: numeral_eq_Suc running_def)
       (simp add: s1 time_sleep_def register_def register_body_def session_request_def
         rejecting_server_def rejected_agent_def reference_agent_def register_request_def
         resp_json_def)
  note two = registration_retried_once [of "rejected_agent 2" 5]
  note one = registration_retried_once [of "rejected_agent 1" 5]
  have tr: "trace (snd (register (time_sleep 30 (snd (register (rejected_agent 2)))))) =
     [Request 1000 (register_request (rejected_agent 2)), Sleep 1000 30,
      Request 1030 (register_request (rejected_agent 2))]"
    using two f2 c2 by simp
  have exit1: "map_option exit_code (fst (run 5 (rejected_agent 2))) = Some 1"
    using two f2 g2 by blast
  have loop: "run 5 (rejected_agent 1) =
     run_loop 5 (snd (register (time_sleep 30 (snd (register (rejected_agent 1))))), initial_schedule)"
    using one f1 g1 by blast
  have stopped: "\<not> running (fst (snd (run 5 (rejected_agent 1))))"
    using one fin by auto
  show ?thesis
    using f2 g2 tr exit1 f1 g1 loop fin stopped by simp
qed

lemma duties_started_Nil: "duties_started [] = []"
  by (simp add: duties_started_def)

lemma duty_of_register: "duty_of (Request t (register_request a)) = []"
  by (simp add: register_request_def)

lemma duties_after_first_tick:
  assumes "fst (register a) = Returns True" "running (snd (register a))"
    "30 \<le> clock (snd (register a))" "duties_started (trace a) = []"
  shows "duties_started (trace (fst (snd (run (Suc 0) a)))) = [HeartbeatDuty, MetricsDuty, ScriptPollDuty]"
proof -
  let ?a1 = "snd (register a)"
  obtain st' where st': "tick (?a1, initial_schedule) = (Returns (), st')"
    using tick_returns [of "(?a1, initial_schedule)"] by (cases "tick (?a1, initial_schedule)") auto
  have "run (Suc 0) a = (None, st')"
    using run_after_success [OF assms(1), of "Suc 0"] assms(2) st' by simp
  moreover obtain evs where "trace (fst (snd (tick (?a1, initial_schedule)))) = trace ?a1 @ evs"
      "duties_started evs = [HeartbeatDuty, MetricsDuty, ScriptPollDuty]"
    using tick_duties [of ?a1 initial_schedule] assms(3)
    by (auto simp: initial_schedule_def HEARTBEAT_INTERVAL_def METRICS_INTERVAL_def
        SCRIPT_POLL_INTERVAL_def)
  ultimately show ?thesis
    using st' assms(4)
    by (simp add: register_trace duties_started_Cons duties_started_Nil duty_of_register)
qed

lemma no_duty_without_register:
  assumes "duties_started (trace a) = []"
    and "duties_started (trace (fst (snd (run fuel a)))) \<noteq> []"
  shows "fst (register a) = Returns True \<or>
         fst (register (time_sleep 30 (snd (register a)))) = Returns True"
proof (rule ccontr)
  assume "\<not> ?thesis"
  then have first: "fst (register a) = Returns False"
    and second: "fst (register (time_sleep 30 (snd (register a)))) = Returns False"
    using register_False_or_True by blast+
  have "duties_started (trace (fst (snd (run fuel a)))) = []"
    using assms(1)
    by (simp add: run_after_two_failures [OF first second] retry_trace duty_of_register
        duties_started_Cons duties_started_Nil)
  with assms(2) show False by simp
qed

text \<open>
  Claim C5, as the code has it. The run loop is entered only after a call of
  \<^verbatim>\<open>register\<close> has returned true: a duty that has started implies that the first or the
  second registration succeeded. \<^verbatim>\<open>register\<close> returns true only when the server
  answered with status 200 and a JSON object, and the agent id it stores is the
  \<^verbatim>\<open>agent_id\<close> entry of that object, or \<^verbatim>\<open>None\<close> when the object has none.
\<close>

theorem loop_entered_only_after_register:
  "(duties_started (trace a) = [] \<longrightarrow> duties_started (trace (fst (snd (run fuel a)))) \<noteq> [] \<longrightarrow>
      fst (register a) = Returns True \<or>
      fst (register (time_sleep 30 (snd (register a)))) = Returns True) \<and>
   (fst (register a) = Returns True \<longrightarrow>
      (\<exists>latency d. server a (requests_made a) (clock a) (register_request a) =
            (latency, Replies (Response 200 (Some (JObj d)))) \<and>
          agent_id (snd (register a)) = (case map_of d ''agent_id'' of None \<Rightarrow> JNull | Some v \<Rightarrow> v)))"
  using no_duty_without_register [of a fuel] register_True [of a] by blast

theorem loop_entered_only_after_register_witness:
  "duties_started (trace (reference_agent 1000)) = [] \<and>
   duties_started (trace (fst (snd (run (Suc 0) (reference_agent 1000))))) \<noteq> [] \<and>
   fst (register (reference_agent 1000)) = Returns True \<and>
   (\<exists>latency d. server (reference_agent 1000) 0 1000 (register_request (reference_agent 1000)) =
            (latency, Replies (Response 200 (Some (JObj d)))) \<and>
          agent_id (snd (register (reference_agent 1000))) =
            (case map_of d ''agent_id'' of None \<Rightarrow> JNull | Some v \<Rightarrow> v))"
proof -
  let ?a = "reference_agent 1000"
  have reg: "fst (register ?a) = Returns True"
    by (simp add: register_reference)
  have fresh: "duties_started (trace ?a) = []"
    by (simp add: reference_agent_def duties_started_def)
  have run: "running (snd (register ?a))" "30 \<le> clock (snd (register ?a))"
    unfolding register_reference by (simp_all add: running_def reference_agent_def)
  have started: "duties_started (trace (fst (snd (run (Suc 0) ?a)))) \<noteq> []"
    using duties_after_first_tick [OF reg run fresh] by simp
  have at: "requests_made ?a = 0" "clock ?a = 1000"
    by (simp_all add: reference_agent_def)
  show ?thesis
    using loop_entered_only_after_register [of ?a "Suc 0"] reg fresh started at by simp
qed

text \<open>
  Claim C5 as stated fails: a status 200 answer whose JSON object has no \<^verbatim>\<open>agent_id\<close>
  makes \<^verbatim>\<open>register\<close> return true with the agent id still \<^verbatim>\<open>None\<close>, and the three
  duties start.
\<close>

theorem register_without_identity:
  "fst (register anonymous_agent) = Returns True \<and>
   agent_id (snd (register anonymous_agent)) = JNull \<and>
   duties_started (trace (fst (snd (run (Suc 0) anonymous_agent)))) =
     [HeartbeatDuty, MetricsDuty, ScriptPollDuty]"
proof -
  have reg: "register anonymous_agent =
      (Returns True, anonymous_agent\<lparr>agent_id := JNull,
         trace := [Request 1000 (register_request anonymous_agent)], requests_made := Suc 0\<rparr>)"
    by (simp add: register_def register_body_def register_request_def session_request_def
        resp_json_def anonymous_agent_def reference_agent_def)
  have "duties_started (trace (fst (snd (run (Suc 0) anonymous_agent)))) =
      [HeartbeatDuty, MetricsDuty, ScriptPollDuty]"
  proof (rule duties_after_first_tick)
    show "fst (register anonymous_agent) = Returns True" by (simp add: reg)
    show "running (snd (register anonymous_agent))"
      unfolding reg by (simp add: running_def anonymous_agent_def reference_agent_def)
    show "30 \<le> clock (snd (register anonymous_agent))"
      unfolding reg by (simp add: anonymous_agent_def reference_agent_def)
    show "duties_started (trace anonymous_agent) = []"
      by (simp add: anonymous_agent_def reference_agent_def duties_started_def)
  qed
  then show ?thesis by (simp add: reg)
qed

section \<open>Result reports\<close>

lemma reports_Cons: "reports (e # evs) = report_of e @ reports evs"
  by (simp add: reports_def)

lemma reports_Nil: "reports [] = []"
  by (simp add: reports_def)

text \<open>
  Claim C1, evaluated where it fails. The script of the reference task completes, and
  the POST that reports its result raises in the transport. The POST sits inside the
  \<^verbatim>\<open>try\<close> block, so the handler for \<^verbatim>\<open>Exception\<close> reports a second result for the same
  execution id, with exit code \<open>-1\<close> and the text of the transport error.
\<close>

theorem execute_script_reports_twice:
  "execute_script reference_task flaky_agent =
     (Returns (), snd (execute_script reference_task flaky_agent)) \<and>
   reports (trace (snd (execute_script reference_task flaky_agent))) =
     [(JStr ''e1'', [(''exit_code'', JNum 0), (''stdout'', JStr ''ok''), (''stderr'', JNull)]),
      (JStr ''e1'', [(''exit_code'', JNum (- 1)), (''stdout'', JStr []),
                     (''stderr'', JStr ''Connection aborted'')])]"
  by (simp add: execute_script_def reference_task_def guarded_run_def run_and_report_def
      subprocess_run_def report_def session_request_def flaky_agent_def flaky_server_def
      reference_agent_def interpreter_argv_def completed_payload_def failure_payload_def
      reports_Cons reports_Nil)

text \<open>The result of a completed script is cut to the two caps.\<close>

lemma completed_payload_capped:
  "completed_payload r =
     [(''exit_code'', JNum (returncode r)),
      (''stdout'', JStr (take 50000 (stdout r))),
      (''stderr'', if stderr r = [] then JNull else JStr (take 10000 (stderr r)))]"
  "length (take 50000 (stdout r)) \<le> 50000" "length (take 10000 (stderr r)) \<le> 10000"
  by (simp_all add: completed_payload_def)

text \<open>
  Claim C6, evaluated where it fails. With the same broken first POST the handler for
  \<^verbatim>\<open>Exception\<close> reports \<^verbatim>\<open>str(e)\<close> as standard error without cutting it; here the
  text of the error quotes the URL of the request and is longer than 10000 characters.
\<close>

theorem failure_stderr_not_truncated:
  "reports (trace (snd (execute_script long_id_task quoting_agent))) =
     [(JStr long_id, [(''exit_code'', JNum 0), (''stdout'', JStr ''ok''), (''stderr'', JNull)]),
      (JStr long_id,
       [(''exit_code'', JNum (- 1)), (''stdout'', JStr []),
        (''stderr'', JStr (''Max retries exceeded with url: /api/v1/agent/scripts/'' @ long_id @
                          ''/result''))])] \<and>
   10000 < length (''Max retries exceeded with url: /api/v1/agent/scripts/'' @ long_id @ ''/result'')"
proof -
  have "10000 < length (''Max retries exceeded with url: /api/v1/agent/scripts/'' @ long_id @ ''/result'')"
    by (simp add: long_id_def)
  moreover have "reports (trace (snd (execute_script long_id_task quoting_agent))) =
     [(JStr long_id, [(''exit_code'', JNum 0), (''stdout'', JStr ''ok''), (''stderr'', JNull)]),
      (JStr long_id,
       [(''exit_code'', JNum (- 1)), (''stdout'', JStr []),
        (''stderr'', JStr (''Max retries exceeded with url: /api/v1/agent/scripts/'' @ long_id @
                          ''/result''))])]"
    by (simp add: execute_script_def long_id_task_def guarded_run_def run_and_report_def
      subprocess_run_def report_def session_request_def quoting_agent_def quoting_server_def
      reference_agent_def interpreter_argv_def completed_payload_def failure_payload_def
      reports_Cons reports_Nil)
  ultimately show ?thesis by blast
qed

section \<open>Tasks of one poll\<close>

text \<open>
  When an exception escapes from the runner, the loop over the tasks ends there: the
  tasks before it have been run and reported in order, and the state the loop leaves is
  the one the failing call left.
\<close>

lemma execute_all_stops:
  "execute_all scripts a = (Raises e, a') \<Longrightarrow>
     \<exists>k evss ak. k < length scripts \<and>
       list_all2 (task_events (sys_executable a)) (take k scripts) evss \<and>
       trace ak = trace a @ concat evss \<and>
       execute_script (scripts ! k) ak = (Raises e, a')"
proof (induction scripts arbitrary: a)
  case Nil
  then show ?case by simp
next
  case (Cons script scripts)
  show ?case
  proof (cases "execute_script script a" rule: outcome_state_cases)
    case (Raises e1 a1)
    with Cons.prems have "execute_script ((script # scripts) ! 0) a = (Raises e, a')" by simp
    then show ?thesis
      by (intro exI [of _ 0] exI [of _ "[]"] exI [of _ a]) simp
  next
    case (Returns v a1)
    then obtain evs where evs: "trace a1 = trace a @ evs" "task_events (sys_executable a) script evs"
      using execute_script_shape(1) by blast
    have py: "sys_executable a1 = sys_executable a"
      using execute_script_shape(2) [of script a] Returns by simp
    from Cons.prems Returns have "execute_all scripts a1 = (Raises e, a')" by simp
    then obtain k evss ak where k: "k < length scripts"
        "list_all2 (task_events (sys_executable a1)) (take k scripts) evss"
        "trace ak = trace a1 @ concat evss" "execute_script (scripts ! k) ak = (Raises e, a')"
      using Cons.IH by blast
    with evs py show ?thesis
      by (intro exI [of _ "Suc k"] exI [of _ "evs # evss"] exI [of _ ak]) simp
  qed
qed

lemma poll_with_tasks:
  assumes "session_request (GET ScriptsEP) a = (Returns (Response 200 (Some (JArr scripts))), a1)"
  shows "poll_and_execute_scripts a = (Returns (), snd (execute_all scripts a1))"
    "trace a1 = trace a @ [Request (clock a) (GET ScriptsEP)]"
    "sys_executable a1 = sys_executable a"
proof -
  show "poll_and_execute_scripts a = (Returns (), snd (execute_all scripts a1))"
    using assms
    by (cases "execute_all scripts a1" rule: outcome_state_cases)
       (simp_all add: poll_and_execute_scripts_def poll_body_def resp_json_def)
  show "trace a1 = trace a @ [Request (clock a) (GET ScriptsEP)]"
    using assms session_request_trace [of "GET ScriptsEP" a] by simp
  show "sys_executable a1 = sys_executable a"
    using assms session_request_sys_executable [of "GET ScriptsEP" a] by simp
qed

text \<open>
  Claim C9, as the code has it. When the poll returns a list of tasks, they are run in
  the order of the list, each with its result reported before the next one is started.
  No task is skipped provided no exception escapes from the runner; when one does (a
  report that raises inside a handler, a task without execution id, content or name),
  the loop ends at that task and the tasks after it are not started in this poll.
\<close>

theorem tasks_run_in_order:
  "session_request (GET ScriptsEP) a = (Returns (Response 200 (Some (JArr scripts))), a1) \<Longrightarrow>
     poll_and_execute_scripts a = (Returns (), snd (execute_all scripts a1)) \<and>
     (fst (execute_all scripts a1) = Returns () \<longrightarrow>
        (\<exists>evss. trace (snd (execute_all scripts a1)) =
                  trace a @ Request (clock a) (GET ScriptsEP) # concat evss \<and>
                list_all2 (task_events (sys_executable a)) scripts evss)) \<and>
     (\<forall>e. fst (execute_all scripts a1) = Raises e \<longrightarrow>
        (\<exists>k evss ak. k < length scripts \<and>
           list_all2 (task_events (sys_executable a)) (take k scripts) evss \<and>
           trace ak = trace a @ Request (clock a) (GET ScriptsEP) # concat evss \<and>
           execute_script (scripts ! k) ak = (Raises e, snd (execute_all scripts a1))))"
proof -
  assume get: "session_request (GET ScriptsEP) a = (Returns (Response 200 (Some (JArr scripts))), a1)"
  note poll = poll_with_tasks [OF get]
  have ok: "fst (execute_all scripts a1) = Returns () \<longrightarrow>
        (\<exists>evss. trace (snd (execute_all scripts a1)) =
                  trace a @ Request (clock a) (GET ScriptsEP) # concat evss \<and>
                list_all2 (task_events (sys_executable a)) scripts evss)"
  proof
    assume "fst (execute_all scripts a1) = Returns ()"
    then have "execute_all scripts a1 = (Returns (), snd (execute_all scripts a1))"
      by (cases "execute_all scripts a1") simp
    then obtain evss where "trace (snd (execute_all scripts a1)) = trace a1 @ concat evss"
        "list_all2 (task_events (sys_executable a1)) scripts evss"
      using execute_all_in_order by blast
    then show "\<exists>evss. trace (snd (execute_all scripts a1)) =
                  trace a @ Request (clock a) (GET ScriptsEP) # concat evss \<and>
                list_all2 (task_events (sys_executable a)) scripts evss"
      using poll(2,3) by (intro exI [of _ evss]) simp
  qed
  have stop: "\<forall>e. fst (execute_all scripts a1) = Raises e \<longrightarrow>
        (\<exists>k evss ak. k < length scripts \<and>
           list_all2 (task_events (sys_executable a)) (take k scripts) evss \<and>
           trace ak = trace a @ Request (clock a) (GET ScriptsEP) # concat evss \<and>
           execute_script (scripts ! k) ak = (Raises e, snd (execute_all scripts a1)))"
  proof (intro allI impI)
    fix e
    assume "fst (execute_all scripts a1) = Raises e"
    then have "execute_all scripts a1 = (Raises e, snd (execute_all scripts a1))"
      by (cases "execute_all scripts a1") simp
    then obtain k evss ak where "k < length scripts"
        "list_all2 (task_events (sys_executable a1)) (take k scripts) evss"
        "trace ak = trace a1 @ concat evss"
        "execute_script (scripts ! k) ak = (Raises e, snd (execute_all scripts a1))"
      using execute_all_stops by blast
    then show "\<exists>k evss ak. k < length scripts \<and>
           list_all2 (task_events (sys_executable a)) (take k scripts) evss \<and>
           trace ak = trace a @ Request (clock a) (GET ScriptsEP) # concat evss \<and>
           execute_script (scripts ! k) ak = (Raises e, snd (execute_all scripts a1))"
      using poll(2,3) by (intro exI [of _ k] exI [of _ evss] exI [of _ ak]) simp
  qed
  from poll(1) ok stop show ?thesis by blast
qed

lemma two_task_poll:
  "session_request (GET ScriptsEP) (two_task_agent up) =
     (Returns (Response 200 (Some (JArr [first_task, second_task]))),
      snd (session_request (GET ScriptsEP) (two_task_agent up)))"
  by (simp add: session_request_def two_task_agent_def)

lemma two_task_up:
  "fst (execute_all [first_task, second_task]
          (snd (session_request (GET ScriptsEP) (two_task_agent True)))) = Returns ()"
  by (simp add: execute_script_def first_task_def second_task_def guarded_run_def
      run_and_report_def subprocess_run_def timed_out_def report_def session_request_def
      two_task_agent_def reference_agent_def interpreter_argv_def)

lemma two_task_down:
  "execute_all [first_task, second_task]
          (snd (session_request (GET ScriptsEP) (two_task_agent False))) =
     execute_script first_task (snd (session_request (GET ScriptsEP) (two_task_agent False)))"
  "fst (execute_script first_task (snd (session_request (GET ScriptsEP) (two_task_agent False)))) =
     Raises (Exception ''Connection reset'')"
  "trace (snd (execute_script first_task (snd (session_request (GET ScriptsEP) (two_task_agent False))))) =
     [Request 1000 (GET ScriptsEP),
      Spawn 1000 [JStr ''bash'', JStr ''-c'', JStr ''sleep 1000''] 300, Kill 1300,
      Request 1300 (POST (ResultEP (JStr ''e1''))
        [(''exit_code'', JNum (- 1)), (''stdout'', JStr []),
         (''stderr'', JStr ''Execution timed out'')])]"
  by (simp_all add: execute_script_def first_task_def second_task_def guarded_run_def
      run_and_report_def subprocess_run_def timed_out_def report_def session_request_def
      two_task_agent_def reference_agent_def interpreter_argv_def timeout_payload_def)

theorem tasks_run_in_order_witness:
  "fst (execute_all [first_task, second_task]
          (snd (session_request (GET ScriptsEP) (two_task_agent True)))) = Returns () \<and>
   (\<exists>evss. trace (snd (poll_and_execute_scripts (two_task_agent True))) =
             Request 1000 (GET ScriptsEP) # concat evss \<and>
           list_all2 (task_events ''/usr/bin/python3'') [first_task, second_task] evss) \<and>
   fst (execute_all [first_task, second_task]
          (snd (session_request (GET ScriptsEP) (two_task_agent False)))) =
     Raises (Exception ''Connection reset'') \<and>
   (\<exists>k evss ak. k < length [first_task, second_task] \<and>
      list_all2 (task_events ''/usr/bin/python3'') (take k [first_task, second_task]) evss \<and>
      trace ak = Request 1000 (GET ScriptsEP) # concat evss \<and>
      execute_script ([first_task, second_task] ! k) ak =
        (Raises (Exception ''Connection reset''), snd (poll_and_execute_scripts (two_task_agent False))))"
proof -
  note up = tasks_run_in_order [OF two_task_poll [of True]]
  note down = tasks_run_in_order [OF two_task_poll [of False]]
  have at: "trace (two_task_agent up) = []" "clock (two_task_agent up) = 1000"
    "sys_executable (two_task_agent up) = ''/usr/bin/python3''" for up
    by (simp_all add: two_task_agent_def reference_agent_def)
  have raised: "fst (execute_all [first_task, second_task]
          (snd (session_request (GET ScriptsEP) (two_task_agent False)))) =
     Raises (Exception ''Connection reset'')"
    using two_task_down(1,2) by simp
  have first: "\<exists>evss. trace (snd (poll_and_execute_scripts (two_task_agent True))) =
             Request 1000 (GET ScriptsEP) # concat evss \<and>
           list_all2 (task_events ''/usr/bin/python3'') [first_task, second_task] evss"
    using up two_task_up by (simp add: at)
  have second: "\<exists>k evss ak. k < length [first_task, second_task] \<and>
      list_all2 (task_events ''/usr/bin/python3'') (take k [first_task, second_task]) evss \<and>
      trace ak = Request 1000 (GET ScriptsEP) # concat evss \<and>
      execute_script ([first_task, second_task] ! k) ak =
        (Raises (Exception ''Connection reset''), snd (poll_and_execute_scripts (two_task_agent False)))"
    using down raised by (simp add: at)
  show ?thesis
    using two_task_up raised first second by blast
qed

text \<open>
  Claim C9 as stated fails: the poll returns two tasks, the first script is killed at
  the timeout and the report of its result raises in the transport; the exception
  leaves the loop and the second task is never started.
\<close>

theorem second_task_skipped:
  "trace (snd (poll_and_execute_scripts (two_task_agent False))) =
     [Request 1000 (GET ScriptsEP),
      Spawn 1000 [JStr ''bash'', JStr ''-c'', JStr ''sleep 1000''] 300, Kill 1300,
      Request 1300 (POST (ResultEP (JStr ''e1''))
        [(''exit_code'', JNum (- 1)), (''stdout'', JStr []),
         (''stderr'', JStr ''Execution timed out'')])] \<and>
   \<not> list_ex (is_spawn_of (interpreter_argv ''/usr/bin/python3'' (JStr ''bash'') (JStr ''echo two'')))
       (trace (snd (poll_and_execute_scripts (two_task_agent False))))"
  using poll_with_tasks(1) [OF two_task_poll [of False]] two_task_down
  by (simp add: interpreter_argv_def)

section \<open>The reference run\<close>




















end
